theory Spec2Isabelle
  imports Complex_Main "HOL-Library.AList"
begin

section \<open>JavaScript values\<close>

text \<open>
  Event payloads are untyped JSON-like values. Finite numbers are rationals (the claims only
  use integers and exact quotients); \<open>JNonFinite\<close> stands for the two infinities (an
  overflowing JSON literal; NaN does not occur in parsed JSON), which every numeric guard
  of the code rejects. An object is an association list in key order; a property read
  returns the first binding, or \<open>JUndefined\<close>.
\<close>

datatype js =
    JUndefined
  | JNull
  | JBool bool
  | JNum rat
  | JNonFinite
  | JStr string
  | JArr "js list"
  | JObj "(string \<times> js) list"

text \<open>\<open>typeof v === 'object' && v !== null\<close> (\<open>isObj\<close>, \<open>isRecord\<close>).\<close>

fun isObj :: "js \<Rightarrow> bool" where
  "isObj (JObj kv) = True"
| "isObj (JArr xs) = True"
| "isObj v = False"

text \<open>
  \<open>v.k\<close> for the property names the code reads (none of them is an array index or
  \<open>length\<close>): own property of an object, \<open>undefined\<close> on anything else.
\<close>

fun getProp :: "js \<Rightarrow> string \<Rightarrow> js" where
  "getProp (JObj kv) k = (case map_of kv k of Some v \<Rightarrow> v | None \<Rightarrow> JUndefined)"
| "getProp v k = JUndefined"

text \<open>\<open>a ?? b\<close>: the right operand only when the left one is \<open>null\<close> or \<open>undefined\<close>.\<close>

definition nullish :: "js \<Rightarrow> bool" where
  "nullish v = (v = JUndefined \<or> v = JNull)"

fun coalesce :: "js list \<Rightarrow> js" where
  "coalesce [] = JUndefined"
| "coalesce [v] = v"
| "coalesce (v # vs) = (if nullish v then coalesce vs else v)"

section \<open>Event stream buffer\<close>

datatype stream_status = Idle | Running | Done | Error

record StreamEvent =
  se_id :: nat
  se_event :: string
  se_data :: js
  se_ts :: nat

text \<open>
  \<open>ChatStream\<close> of the gateway; the web server's store adds the subscriber set. Event ids
  are JavaScript numbers counted up from 1, modelled as unbounded naturals.
\<close>

record ChatStream =
  status :: stream_status
  nextId :: nat
  events :: "StreamEvent list"
  updatedAt :: nat

record MemChatStream = ChatStream +
  listeners :: "nat set"

definition chatKey :: "string \<Rightarrow> string \<Rightarrow> string" where
  "chatKey sessionId chatId = sessionId @ '':'' @ chatId"

text \<open>
  The body shared by both \<open>appendStreamEvent\<close> functions: take the next id, push, latch the
  status on a terminal kind, stamp, and splice the oldest events off once the log is longer
  than \<open>maxEvents\<close>. One clock reading \<open>now\<close> stands for the \<open>Date.now()\<close> reads of one call.
\<close>

definition latch_status :: "string \<Rightarrow> stream_status \<Rightarrow> stream_status" where
  "latch_status event st =
     (let st1 = (if event = ''done'' then Done else st)
      in if event = ''turn_error'' \<or> event = ''error'' then Error else st1)"

definition splice_oldest :: "nat \<Rightarrow> StreamEvent list \<Rightarrow> StreamEvent list" where
  "splice_oldest maxEvents es =
     (if length es > maxEvents then drop (length es - maxEvents) es else es)"

definition push_event ::
  "nat \<Rightarrow> nat \<Rightarrow> string \<Rightarrow> js \<Rightarrow> 'a ChatStream_scheme \<Rightarrow> StreamEvent \<times> 'a ChatStream_scheme" where
  "push_event maxEvents now event data s =
     (let e = \<lparr>se_id = nextId s, se_event = event, se_data = data, se_ts = now\<rparr>
      in (e, s\<lparr>status := latch_status event (status s),
                nextId := nextId s + 1,
                events := splice_oldest maxEvents (events s @ [e]),
                updatedAt := now\<rparr>))"

definition clear_stream :: "nat \<Rightarrow> 'a ChatStream_scheme \<Rightarrow> 'a ChatStream_scheme" where
  "clear_stream now s = s\<lparr>status := Running, nextId := 1, events := [], updatedAt := now\<rparr>"

definition events_since :: "int \<Rightarrow> 'a ChatStream_scheme \<Rightarrow> StreamEvent list" where
  "events_since afterId s = filter (\<lambda>e. int (se_id e) > afterId) (events s)"

subsection \<open>Gateway (sessiond) streams\<close>

type_synonym sessiond_streams = "string \<rightharpoonup> ChatStream"

definition sessiond_ensureStream ::
  "nat \<Rightarrow> string \<Rightarrow> string \<Rightarrow> sessiond_streams \<Rightarrow> ChatStream \<times> sessiond_streams" where
  "sessiond_ensureStream now sessionId chatId m =
     (case m (chatKey sessionId chatId) of
        Some s \<Rightarrow> (s, m)
      | None \<Rightarrow>
          (let s = \<lparr>status = Idle, nextId = 1, events = [], updatedAt = now\<rparr>
           in (s, m(chatKey sessionId chatId \<mapsto> s))))"

definition sessiond_resetStream ::
  "nat \<Rightarrow> string \<Rightarrow> string \<Rightarrow> sessiond_streams \<Rightarrow> sessiond_streams" where
  "sessiond_resetStream now sessionId chatId m =
     (let (s, m1) = sessiond_ensureStream now sessionId chatId m
      in m1(chatKey sessionId chatId \<mapsto> clear_stream now s))"

definition sessiond_appendStreamEvent ::
  "nat \<Rightarrow> string \<Rightarrow> string \<Rightarrow> string \<Rightarrow> js \<Rightarrow> sessiond_streams \<Rightarrow> StreamEvent \<times> sessiond_streams" where
  "sessiond_appendStreamEvent now sessionId chatId event data m =
     (let (s, m1) = sessiond_ensureStream now sessionId chatId m;
          (e, s') = push_event 4000 now event data s
      in (e, m1(chatKey sessionId chatId \<mapsto> s')))"

definition sessiond_listStreamEventsSince ::
  "nat \<Rightarrow> string \<Rightarrow> string \<Rightarrow> int \<Rightarrow> sessiond_streams \<Rightarrow> StreamEvent list \<times> sessiond_streams" where
  "sessiond_listStreamEventsSince now sessionId chatId afterId m =
     (let (s, m1) = sessiond_ensureStream now sessionId chatId m
      in (events_since afterId s, m1))"

record StreamRuntime =
  rt_status :: stream_status
  rt_lastEventId :: nat
  rt_updatedAt :: nat

definition runtime_of :: "'a ChatStream_scheme \<Rightarrow> StreamRuntime" where
  "runtime_of s = \<lparr>rt_status = status s, rt_lastEventId = nextId s - 1, rt_updatedAt = updatedAt s\<rparr>"

definition sessiond_getStreamRuntime ::
  "nat \<Rightarrow> string \<Rightarrow> string \<Rightarrow> sessiond_streams \<Rightarrow> StreamRuntime \<times> sessiond_streams" where
  "sessiond_getStreamRuntime now sessionId chatId m =
     (let (s, m1) = sessiond_ensureStream now sessionId chatId m in (runtime_of s, m1))"

subsection \<open>Web-server store (MemoryStore) streams\<close>

text \<open>
  A listener is a callback; it is identified by a number, and \<open>inbox\<close> records, per
  listener, the events it has been called with, in call order.
\<close>

record MemoryStore =
  streamsByChatKey :: "string \<rightharpoonup> MemChatStream"
  inbox :: "nat \<Rightarrow> StreamEvent list"

definition MemoryStore_ensureStream ::
  "nat \<Rightarrow> string \<Rightarrow> string \<Rightarrow> MemoryStore \<Rightarrow> MemChatStream \<times> MemoryStore" where
  "MemoryStore_ensureStream now sessionId chatId st =
     (case streamsByChatKey st (chatKey sessionId chatId) of
        Some s \<Rightarrow> (s, st)
      | None \<Rightarrow>
          (let s = \<lparr>status = Idle, nextId = 1, events = [], updatedAt = now, listeners = {}\<rparr>
           in (s, st\<lparr>streamsByChatKey := (streamsByChatKey st)(chatKey sessionId chatId \<mapsto> s)\<rparr>)))"

definition MemoryStore_resetStream ::
  "nat \<Rightarrow> string \<Rightarrow> string \<Rightarrow> MemoryStore \<Rightarrow> MemoryStore" where
  "MemoryStore_resetStream now sessionId chatId st =
     (let (s, st1) = MemoryStore_ensureStream now sessionId chatId st
      in st1\<lparr>streamsByChatKey :=
               (streamsByChatKey st1)(chatKey sessionId chatId \<mapsto> clear_stream now s)\<rparr>)"


definition MemoryStore_appendStreamEvent ::
  "nat \<Rightarrow> string \<Rightarrow> string \<Rightarrow> string \<Rightarrow> js \<Rightarrow> MemoryStore \<Rightarrow> StreamEvent \<times> MemoryStore" where
  "MemoryStore_appendStreamEvent now sessionId chatId event data st =
     (let (s, st1) = MemoryStore_ensureStream now sessionId chatId st;
          (e, s') = push_event 2000 now event data s
      in (e, st1\<lparr>streamsByChatKey := (streamsByChatKey st1)(chatKey sessionId chatId \<mapsto> s'),
                  inbox := (\<lambda>fn. if fn \<in> listeners s' then inbox st1 fn @ [e] else inbox st1 fn)\<rparr>))"

definition MemoryStore_listStreamEventsSince ::
  "nat \<Rightarrow> string \<Rightarrow> string \<Rightarrow> int \<Rightarrow> MemoryStore \<Rightarrow> StreamEvent list \<times> MemoryStore" where
  "MemoryStore_listStreamEventsSince now sessionId chatId afterId st =
     (let (s, st1) = MemoryStore_ensureStream now sessionId chatId st
      in (events_since afterId s, st1))"

definition MemoryStore_subscribeStream ::
  "nat \<Rightarrow> string \<Rightarrow> string \<Rightarrow> nat \<Rightarrow> MemoryStore \<Rightarrow> MemoryStore" where
  "MemoryStore_subscribeStream now sessionId chatId fn st =
     (let (s, st1) = MemoryStore_ensureStream now sessionId chatId st
      in st1\<lparr>streamsByChatKey :=
               (streamsByChatKey st1)(chatKey sessionId chatId \<mapsto> s\<lparr>listeners := insert fn (listeners s)\<rparr>)\<rparr>)"

text \<open>The closure returned by \<open>subscribeStream\<close>.\<close>

definition MemoryStore_unsubscribe ::
  "string \<Rightarrow> string \<Rightarrow> nat \<Rightarrow> MemoryStore \<Rightarrow> MemoryStore" where
  "MemoryStore_unsubscribe sessionId chatId fn st =
     (case streamsByChatKey st (chatKey sessionId chatId) of
        None \<Rightarrow> st
      | Some cur \<Rightarrow>
          st\<lparr>streamsByChatKey :=
               (streamsByChatKey st)(chatKey sessionId chatId \<mapsto> cur\<lparr>listeners := listeners cur - {fn}\<rparr>)\<rparr>)"

text \<open>The stream part of \<open>deleteChat\<close>.\<close>

definition MemoryStore_deleteStream :: "string \<Rightarrow> string \<Rightarrow> MemoryStore \<Rightarrow> MemoryStore" where
  "MemoryStore_deleteStream sessionId chatId st =
     st\<lparr>streamsByChatKey := (streamsByChatKey st)(chatKey sessionId chatId := None)\<rparr>"

subsection \<open>Histories of buffer operations\<close>

text \<open>
  Every way the two processes touch a stream buffer: the gateway's handlers and sweep
  reset, append, read (which creates a missing stream), force the status to idle and
  delete; the web server resets, appends, reads, subscribes, unsubscribes and deletes.
\<close>

datatype sessiond_op =
    SdReset nat string string
  | SdAppend nat string string string js
  | SdRead nat string string
  | SdSetIdle nat string string
  | SdDelete string

fun sessiond_step :: "sessiond_op \<Rightarrow> sessiond_streams \<Rightarrow> sessiond_streams" where
  "sessiond_step (SdReset now sid cid) m = sessiond_resetStream now sid cid m"
| "sessiond_step (SdAppend now sid cid event data) m =
     snd (sessiond_appendStreamEvent now sid cid event data m)"
| "sessiond_step (SdRead now sid cid) m = snd (sessiond_ensureStream now sid cid m)"
| "sessiond_step (SdSetIdle now sid cid) m =
     (let (s, m1) = sessiond_ensureStream now sid cid m
      in m1(chatKey sid cid \<mapsto> s\<lparr>status := Idle\<rparr>))"
| "sessiond_step (SdDelete key) m = m(key := None)"

definition sessiond_run :: "sessiond_op list \<Rightarrow> sessiond_streams" where
  "sessiond_run ops = fold sessiond_step ops Map.empty"

datatype store_op =
    MsReset nat string string
  | MsAppend nat string string string js
  | MsRead nat string string
  | MsSubscribe nat string string nat
  | MsUnsubscribe string string nat
  | MsDelete string string

fun store_step :: "store_op \<Rightarrow> MemoryStore \<Rightarrow> MemoryStore" where
  "store_step (MsReset now sid cid) st = MemoryStore_resetStream now sid cid st"
| "store_step (MsAppend now sid cid event data) st =
     snd (MemoryStore_appendStreamEvent now sid cid event data st)"
| "store_step (MsRead now sid cid) st = snd (MemoryStore_ensureStream now sid cid st)"
| "store_step (MsSubscribe now sid cid fn) st = MemoryStore_subscribeStream now sid cid fn st"
| "store_step (MsUnsubscribe sid cid fn) st = MemoryStore_unsubscribe sid cid fn st"
| "store_step (MsDelete sid cid) st = MemoryStore_deleteStream sid cid st"

definition empty_store :: MemoryStore where
  "empty_store = \<lparr>streamsByChatKey = Map.empty, inbox = (\<lambda>fn. [])\<rparr>"

definition store_run :: "store_op list \<Rightarrow> MemoryStore" where
  "store_run ops = fold store_step ops empty_store"

text \<open>
  What the buffer keeps: with \<open>cap\<close> the capacity, the retained ids are the last
  \<open>min cap (nextId - 1)\<close> numbers below \<open>nextId\<close>, in order.
\<close>

definition retained_ok :: "nat \<Rightarrow> 'a ChatStream_scheme \<Rightarrow> bool" where
  "retained_ok cap s =
     (1 \<le> nextId s \<and>
      length (events s) = min cap (nextId s - 1) \<and>
      map se_id (events s) = [nextId s - length (events s) ..< nextId s])"

text \<open>A run of appends on one conversation of the store, returning the events created.\<close>

fun append_all ::
  "(nat \<times> string \<times> js) list \<Rightarrow> string \<Rightarrow> string \<Rightarrow> MemoryStore \<Rightarrow> StreamEvent list \<times> MemoryStore" where
  "append_all [] sid cid st = ([], st)"
| "append_all ((now, event, data) # rest) sid cid st =
     (let (e, st1) = MemoryStore_appendStreamEvent now sid cid event data st;
          (es, st2) = append_all rest sid cid st1
      in (e # es, st2))"

section \<open>Agent session adapter (CodexMcpClient)\<close>

text \<open>Truthiness, \<open>typeof v === 'string'\<close>, \<open>Array.isArray\<close>, \<open>Object.values\<close>.\<close>

fun truthy :: "js \<Rightarrow> bool" where
  "truthy JUndefined = False"
| "truthy JNull = False"
| "truthy (JBool b) = b"
| "truthy (JNum n) = (n \<noteq> 0)"
| "truthy JNonFinite = True"
| "truthy (JStr s) = (s \<noteq> [])"
| "truthy (JArr xs) = True"
| "truthy (JObj kv) = True"

fun isString :: "js \<Rightarrow> bool" where
  "isString (JStr s) = True"
| "isString v = False"

fun isArray :: "js \<Rightarrow> bool" where
  "isArray (JArr xs) = True"
| "isArray v = False"

fun objectValues :: "js \<Rightarrow> js list" where
  "objectValues (JObj kv) = map snd kv"
| "objectValues (JArr xs) = xs"
| "objectValues v = []"

text \<open>
  \<open>String(v)\<close>: a string is itself; the rendering of any other value is the language's,
  taken as the parameter \<open>toStr\<close>.
\<close>

fun js_String :: "(js \<Rightarrow> string) \<Rightarrow> js \<Rightarrow> string" where
  "js_String toStr (JStr s) = s"
| "js_String toStr v = toStr v"

text \<open>\<open>a || b || ...\<close>: the first truthy operand, else the last one.\<close>

fun first_truthy :: "js list \<Rightarrow> js" where
  "first_truthy [] = JUndefined"
| "first_truthy [v] = v"
| "first_truthy (v # vs) = (if truthy v then v else first_truthy vs)"

text \<open>\<open>asObj(a) || asObj(b) || ...\<close>: the first operand that is an object, else \<open>null\<close>.\<close>

fun first_obj :: "js list \<Rightarrow> js option" where
  "first_obj [] = None"
| "first_obj (v # vs) = (if isObj v then Some v else first_obj vs)"

fun first_some :: "('a \<Rightarrow> 'b option) \<Rightarrow> 'a list \<Rightarrow> 'b option" where
  "first_some f [] = None"
| "first_some f (x # xs) = (case f x of Some y \<Rightarrow> Some y | None \<Rightarrow> first_some f xs)"

record CodexApprovalRequest =
  ar_id :: string
  ar_message :: "string option"
  ar_command :: "string list option"
  ar_cwd :: "string option"

datatype CodexRunnerEvent =
    AgentMessage string
  | ApprovalRequest CodexApprovalRequest
  | Raw js

datatype AgentBackend = Codex | Claude

text \<open>
  What a call does to the outside, in the order it does it: the event sink called (the
  sink is named by a number), a pending approval's resolver called with a decision, the
  Claude child process signalled and its kill timer armed, the turn's AbortController
  fired.
\<close>

datatype effect =
    Emit nat CodexRunnerEvent
  | Resolve nat string
  | SigTerm
  | SigKillAfter nat
  | AbortSignal

datatype adapter_error = TypeError | MissingSessionId

record ChildProc =
  cp_exited :: bool
  cp_killed :: bool

text \<open>
  The fields of the class. \<open>pendingApprovals\<close> is the insertion-ordered Map from approval
  id to resolver; a resolver is named by a number, handed out from \<open>resolverSeq\<close>.
\<close>

record CodexMcpClient =
  backend :: AgentBackend
  activeClaudeProc :: "ChildProc option"
  sessionId :: "string option"
  conversationId :: "string option"
  onEvent :: "nat option"
  pendingApprovals :: "(string \<times> nat) list"
  sawAssistantTextInFlight :: bool
  approvalSeq :: nat
  resolverSeq :: nat
  lastUsage :: "js option"
  lastRateLimits :: "js option"

definition new_client :: "AgentBackend \<Rightarrow> CodexMcpClient" where
  "new_client b =
     \<lparr>backend = b, activeClaudeProc = None, sessionId = None, conversationId = None,
      onEvent = None, pendingApprovals = [], sawAssistantTextInFlight = False,
      approvalSeq = 0, resolverSeq = 0, lastUsage = None, lastRateLimits = None\<rparr>"

text \<open>\<open>this.onEvent?.(e)\<close>\<close>

definition emit_to :: "CodexMcpClient \<Rightarrow> CodexRunnerEvent \<Rightarrow> effect list" where
  "emit_to c e = (case onEvent c of None \<Rightarrow> [] | Some h \<Rightarrow> [Emit h e])"

definition setEventHandler :: "nat option \<Rightarrow> CodexMcpClient \<Rightarrow> CodexMcpClient" where
  "setEventHandler h c = c\<lparr>onEvent := h\<rparr>"

definition update_ids_from :: "(js \<Rightarrow> string) \<Rightarrow> js \<Rightarrow> CodexMcpClient \<Rightarrow> CodexMcpClient" where
  "update_ids_from toStr cand c =
     (let sid = coalesce [getProp cand ''session_id'', getProp cand ''sessionId''];
          c1 = (if truthy sid then c\<lparr>sessionId := Some (js_String toStr sid)\<rparr> else c);
          cid = coalesce [getProp cand ''conversation_id'', getProp cand ''conversationId'']
      in if truthy cid then c1\<lparr>conversationId := Some (js_String toStr cid)\<rparr> else c1)"

definition updateIdentifiersFromEvent ::
  "(js \<Rightarrow> string) \<Rightarrow> js \<Rightarrow> CodexMcpClient \<Rightarrow> CodexMcpClient" where
  "updateIdentifiersFromEvent toStr event c =
     (if \<not> isObj event then c
      else let cand = event # (if isObj (getProp event ''data'') then [getProp event ''data''] else [])
           in fold (update_ids_from toStr) cand c)"

text \<open>
  \<open>extractUsage\<close> reads \<open>v.usage\<close> unguarded, so it throws on \<open>null\<close> and
  \<open>undefined\<close>.
\<close>

definition extractUsage :: "js \<Rightarrow> adapter_error + js option" where
  "extractUsage v =
     (if nullish v then Inl TypeError
      else case first_obj [getProp v ''usage'', getProp (getProp v ''meta'') ''usage'',
                           getProp (getProp v ''meta'') ''usageDetails''] of
        Some direct \<Rightarrow> Inr (Some direct)
      | None \<Rightarrow>
         (case (if isObj (getProp v ''info'')
                then first_obj [getProp (getProp v ''info'') ''usage'',
                                getProp (getProp v ''info'') ''total_token_usage'',
                                getProp (getProp v ''info'') ''last_token_usage'']
                else None) of
            Some tokenUsage \<Rightarrow> Inr (Some tokenUsage)
          | None \<Rightarrow>
             (if isArray (getProp v ''content'')
              then Inr (first_some
                     (\<lambda>item. first_obj [getProp item ''usage'',
                                         getProp (getProp item ''metadata'') ''usage'',
                                         getProp (getProp item ''meta'') ''usage''])
                     (objectValues (getProp v ''content'')))
              else Inr None)))"

text \<open>
  \<open>searchRec\<close> of \<open>extractRateLimits\<close>. The first argument is the number of levels left
  (the source stops at \<open>depth > 8\<close>); the \<open>seen\<close> set guards shared nodes, which a parsed
  payload, a tree, does not have.
\<close>

fun searchRec :: "nat \<Rightarrow> js \<Rightarrow> js option" where
  "searchRec 0 node = None"
| "searchRec (Suc left) node =
     (if \<not> isObj node then None
      else case first_obj [getProp node ''rate_limits'', getProp node ''rateLimits'',
                           getProp node ''rate_limits_raw'', getProp node ''rateLimitsRaw''] of
        Some direct \<Rightarrow> Some direct
      | None \<Rightarrow>
        (case (if isObj (getProp node ''usage'')
               then first_obj [getProp (getProp node ''usage'') ''rate_limits'',
                               getProp (getProp node ''usage'') ''rateLimits'']
               else None) of
           Some fromUsage \<Rightarrow> Some fromUsage
         | None \<Rightarrow>
           (case (if isObj (getProp node ''meta'')
                  then first_obj [getProp (getProp node ''meta'') ''rate_limits'',
                                  getProp (getProp node ''meta'') ''rateLimits'']
                  else None) of
              Some fromMeta \<Rightarrow> Some fromMeta
            | None \<Rightarrow>
              (case (if isObj (getProp node ''info'')
                     then first_obj [getProp (getProp node ''info'') ''rate_limits'',
                                     getProp (getProp node ''info'') ''rateLimits'']
                     else None) of
                 Some fromInfo \<Rightarrow> Some fromInfo
               | None \<Rightarrow> first_some (searchRec left) (objectValues node)))))"

definition extractRateLimits :: "js \<Rightarrow> js option" where
  "extractRateLimits v = searchRec 9 v"

text \<open>The first non-empty \<open>output_text\<close> block of a raw assistant item.\<close>

definition output_text_of :: "js \<Rightarrow> string option" where
  "output_text_of c =
     (if isObj c \<and> getProp c ''type'' = JStr ''output_text''
      then (case getProp c ''text'' of JStr t \<Rightarrow> (if t \<noteq> [] then Some t else None) | _ \<Rightarrow> None)
      else None)"

text \<open>
  The \<open>codex/event\<close> notification handler. It throws (and does nothing else) when
  \<open>extractUsage\<close> does.
\<close>

definition codexEvent ::
  "(js \<Rightarrow> string) \<Rightarrow> js \<Rightarrow> CodexMcpClient \<Rightarrow> adapter_error + (CodexMcpClient \<times> effect list)" where
  "codexEvent toStr msg c0 =
     (let c1 = updateIdentifiersFromEvent toStr msg c0
      in case extractUsage msg of
        Inl err \<Rightarrow> Inl err
      | Inr usageFromMsg \<Rightarrow>
         (let c2 = (case usageFromMsg of Some u \<Rightarrow> c1\<lparr>lastUsage := Some u\<rparr> | None \<Rightarrow> c1);
              c = (case extractRateLimits msg of
                     Some r \<Rightarrow> c2\<lparr>lastRateLimits := Some r\<rparr> | None \<Rightarrow> c2)
          in if isObj msg \<and> getProp msg ''type'' = JStr ''agent_message_delta''
                \<and> isString (getProp msg ''delta'')
             then Inr (c\<lparr>sawAssistantTextInFlight := True\<rparr>,
                       emit_to c (AgentMessage (js_String toStr (getProp msg ''delta''))))
             else if isObj msg \<and> getProp msg ''type'' = JStr ''agent_message_content_delta''
                \<and> isString (getProp msg ''delta'')
             then Inr (c, [])
             else if isObj msg \<and> getProp msg ''type'' = JStr ''agent_message''
                \<and> isString (getProp msg ''message'') \<and> \<not> sawAssistantTextInFlight c
             then Inr (c\<lparr>sawAssistantTextInFlight := True\<rparr>,
                       emit_to c (AgentMessage (js_String toStr (getProp msg ''message''))))
             else case (if isObj msg \<and> getProp msg ''type'' = JStr ''raw_response_item''
                           \<and> \<not> sawAssistantTextInFlight c \<and> isObj (getProp msg ''item'')
                           \<and> getProp (getProp msg ''item'') ''role'' = JStr ''assistant''
                           \<and> isArray (getProp (getProp msg ''item'') ''content'')
                        then first_some output_text_of
                               (objectValues (getProp (getProp msg ''item'') ''content''))
                        else None) of
                 Some t \<Rightarrow> Inr (c\<lparr>sawAssistantTextInFlight := True\<rparr>, emit_to c (AgentMessage t))
               | None \<Rightarrow> Inr (c, emit_to c (Raw msg))))"

text \<open>
  The notifications of one turn, one after the other. A notification whose handler throws
  changes nothing and the next one is handled as usual.
\<close>

fun codexEvents ::
  "(js \<Rightarrow> string) \<Rightarrow> js list \<Rightarrow> CodexMcpClient \<Rightarrow> CodexMcpClient \<times> effect list" where
  "codexEvents toStr [] c = (c, [])"
| "codexEvents toStr (msg # msgs) c =
     (case codexEvent toStr msg c of
        Inl err \<Rightarrow> codexEvents toStr msgs c
      | Inr (c1, out1) \<Rightarrow>
          (let (c2, out2) = codexEvents toStr msgs c1 in (c2, out1 @ out2)))"

text \<open>The text of the \<open>agent_message\<close> events among the effects, in order.\<close>

fun agent_texts :: "effect list \<Rightarrow> string list" where
  "agent_texts [] = []"
| "agent_texts (Emit h (AgentMessage t) # es) = t # agent_texts es"
| "agent_texts (e # es) = agent_texts es"

text \<open>The three text channels of a notification, as the handler tells them apart.\<close>

definition delta_text :: "js \<Rightarrow> string option" where
  "delta_text msg =
     (if isObj msg \<and> getProp msg ''type'' = JStr ''agent_message_delta''
      then (case getProp msg ''delta'' of JStr t \<Rightarrow> Some t | _ \<Rightarrow> None) else None)"

definition content_delta_text :: "js \<Rightarrow> string option" where
  "content_delta_text msg =
     (if isObj msg \<and> getProp msg ''type'' = JStr ''agent_message_content_delta''
      then (case getProp msg ''delta'' of JStr t \<Rightarrow> Some t | _ \<Rightarrow> None) else None)"

definition fallback_text :: "js \<Rightarrow> string option" where
  "fallback_text msg =
     (if isObj msg \<and> getProp msg ''type'' = JStr ''agent_message''
      then (case getProp msg ''message'' of JStr t \<Rightarrow> Some t | _ \<Rightarrow> None)
      else if isObj msg \<and> getProp msg ''type'' = JStr ''raw_response_item''
              \<and> isObj (getProp msg ''item'')
              \<and> getProp (getProp msg ''item'') ''role'' = JStr ''assistant''
              \<and> isArray (getProp (getProp msg ''item'') ''content'')
      then first_some output_text_of (objectValues (getProp (getProp msg ''item'') ''content''))
      else None)"

text \<open>
  The text of the first notification that carries text on the full-message or
  raw-content-block channel, when it comes before every delta.
\<close>

fun leading_fallback :: "js list \<Rightarrow> string list" where
  "leading_fallback [] = []"
| "leading_fallback (msg # msgs) =
     (case delta_text msg of
        Some d \<Rightarrow> []
      | None \<Rightarrow> (case fallback_text msg of Some t \<Rightarrow> [t] | None \<Rightarrow> leading_fallback msgs))"

subsection \<open>Approvals\<close>

text \<open>
  The elicitation request handler up to its \<open>await\<close>: the id is the backend's correlation
  id when it has one, else \<open>nextApprovalId()\<close>, the clock reading, a dash and the counter;
  the resolver is stored under it (\<open>Map.set\<close> keeps the position of a key that is already
  there) and the request is emitted.
\<close>

definition nextApprovalId :: "(js \<Rightarrow> string) \<Rightarrow> nat \<Rightarrow> CodexMcpClient \<Rightarrow> string \<times> CodexMcpClient" where
  "nextApprovalId toStr now c =
     (let c1 = c\<lparr>approvalSeq := approvalSeq c + 1\<rparr>
      in (toStr (JNum (of_nat now)) @ ''-'' @ toStr (JNum (of_nat (approvalSeq c1))), c1))"

definition elicitRequest ::
  "(js \<Rightarrow> string) \<Rightarrow> nat \<Rightarrow> js \<Rightarrow> CodexMcpClient \<Rightarrow> nat \<times> CodexMcpClient \<times> effect list" where
  "elicitRequest toStr now p c =
     (let approvalId = js_String toStr
            (first_truthy [getProp p ''codex_call_id'', getProp p ''codex_mcp_tool_call_id'',
                           getProp p ''codex_event_id'', JStr '''']);
          (ident, c1) = (if approvalId \<noteq> [] then (approvalId, c) else nextApprovalId toStr now c);
          req = \<lparr>ar_id = ident,
                 ar_message = (case getProp p ''message'' of JStr m \<Rightarrow> Some m | _ \<Rightarrow> None),
                 ar_command = (case getProp p ''codex_command'' of
                                 JArr xs \<Rightarrow> Some (map (js_String toStr) xs) | _ \<Rightarrow> None),
                 ar_cwd = (case getProp p ''codex_cwd'' of JStr d \<Rightarrow> Some d | _ \<Rightarrow> None)\<rparr>;
          resolver = resolverSeq c1;
          c2 = c1\<lparr>resolverSeq := resolver + 1,
                  pendingApprovals := AList.update ident resolver (pendingApprovals c1)\<rparr>
      in (resolver, c2, emit_to c2 (ApprovalRequest req)))"

definition hasSession :: "CodexMcpClient \<Rightarrow> bool" where
  "hasSession c = (sessionId c \<noteq> None)"

definition hasPendingApprovals :: "CodexMcpClient \<Rightarrow> bool" where
  "hasPendingApprovals c = (length (pendingApprovals c) > 0)"

text \<open>
  \<open>stopActiveClaudeProcess()\<close> without a target: signal the tracked child if it is still
  running, arm the 1200 ms kill timer, forget the child.
\<close>

definition stopActiveClaudeProcess :: "CodexMcpClient \<Rightarrow> CodexMcpClient \<times> effect list" where
  "stopActiveClaudeProcess c =
     (case activeClaudeProc c of
        None \<Rightarrow> (c, [])
      | Some proc \<Rightarrow>
          (c\<lparr>activeClaudeProc := None\<rparr>,
           if \<not> cp_exited proc \<and> \<not> cp_killed proc then [SigTerm, SigKillAfter 1200] else []))"

definition abortPendingApprovals :: "CodexMcpClient \<Rightarrow> nat \<times> CodexMcpClient \<times> effect list" where
  "abortPendingApprovals c =
     (let resolvers = map snd (pendingApprovals c);
          c1 = c\<lparr>pendingApprovals := []\<rparr>;
          (c2, stop) = stopActiveClaudeProcess c1
      in (length resolvers, c2, map (\<lambda>resolve. Resolve resolve ''abort'') resolvers @ stop))"

definition resetSessionState :: "CodexMcpClient \<Rightarrow> CodexMcpClient \<times> effect list" where
  "resetSessionState c =
     (let (n, c1, effs) = abortPendingApprovals c
      in (c1\<lparr>sessionId := None, conversationId := None, sawAssistantTextInFlight := False,
              lastUsage := None, lastRateLimits := None\<rparr>, effs))"

text \<open>
  \<open>approve\<close>. The fallback key is used only when it is truthy, and the entry is deleted
  only under a truthy key.
\<close>

definition approve :: "string \<Rightarrow> string \<Rightarrow> CodexMcpClient \<Rightarrow> bool \<times> CodexMcpClient \<times> effect list" where
  "approve ident decision c =
     (let (pendingApprovalKey, resolver) =
            (case map_of (pendingApprovals c) ident of
               Some r \<Rightarrow> (ident, Some r)
             | None \<Rightarrow>
                 (case pendingApprovals c of
                    [(fallback, r)] \<Rightarrow> (if fallback \<noteq> [] then (fallback, Some r) else (ident, None))
                  | _ \<Rightarrow> (ident, None)))
      in case resolver of
           None \<Rightarrow> (False, c, [])
         | Some r \<Rightarrow>
             (True,
              (if pendingApprovalKey \<noteq> []
               then c\<lparr>pendingApprovals := AList.delete pendingApprovalKey (pendingApprovals c)\<rparr>
               else c),
              [Resolve r decision]))"

datatype elicit_action = Accept | Decline | Cancel

text \<open>The answer the suspended request handler returns once its resolver is called.\<close>

definition toElicitResponse :: "string \<Rightarrow> elicit_action" where
  "toElicitResponse decision =
     (if decision = ''approved'' \<or> decision = ''approved_for_session'' then Accept
      else if decision = ''denied'' then Decline
      else Cancel)"

subsection \<open>Starting a turn\<close>

text \<open>
  \<open>startSession\<close> and \<open>continueSession\<close> from the end of \<open>connect()\<close> to the backend call:
  what they reset before any event of the new turn can arrive.
\<close>

definition startSession_begin :: "CodexMcpClient \<Rightarrow> CodexMcpClient" where
  "startSession_begin c =
     c\<lparr>lastUsage := None, lastRateLimits := None, sawAssistantTextInFlight := False\<rparr>"

definition continueSession_begin :: "CodexMcpClient \<Rightarrow> adapter_error + CodexMcpClient" where
  "continueSession_begin c =
     (case sessionId c of
        None \<Rightarrow> Inl MissingSessionId
      | Some sid \<Rightarrow>
          if sid = [] then Inl MissingSessionId
          else Inr (c\<lparr>conversationId :=
                          (case conversationId c of
                             None \<Rightarrow> Some sid
                           | Some cid \<Rightarrow> if cid = [] then Some sid else Some cid),
                       lastUsage := None, lastRateLimits := None,
                       sawAssistantTextInFlight := False\<rparr>))"

section \<open>Turn runner (CodexManager)\<close>

datatype Sandbox = ReadOnly | WorkspaceWrite | DangerFullAccess

datatype ApprovalPolicy = Untrusted | OnFailure | OnRequest | Never

datatype ReasoningEffort = Low | Medium | High | XHigh

fun sandbox_name :: "Sandbox \<Rightarrow> string" where
  "sandbox_name ReadOnly = ''read-only''"
| "sandbox_name WorkspaceWrite = ''workspace-write''"
| "sandbox_name DangerFullAccess = ''danger-full-access''"

fun policy_name :: "ApprovalPolicy \<Rightarrow> string" where
  "policy_name Untrusted = ''untrusted''"
| "policy_name OnFailure = ''on-failure''"
| "policy_name OnRequest = ''on-request''"
| "policy_name Never = ''never''"

fun effort_name :: "ReasoningEffort \<Rightarrow> string" where
  "effort_name Low = ''low''"
| "effort_name Medium = ''medium''"
| "effort_name High = ''high''"
| "effort_name XHigh = ''xhigh''"

record TurnConfig =
  cwd :: "string option"
  sandbox :: "Sandbox option"
  approvalPolicy :: "ApprovalPolicy option"
  model :: "string option"
  reasoningEffort :: "ReasoningEffort option"

text \<open>\<open>x ?? null\<close> for an optional string.\<close>

definition or_null :: "string option \<Rightarrow> js" where
  "or_null x = (case x of None \<Rightarrow> JNull | Some s \<Rightarrow> JStr s)"

text \<open>
  \<open>sessionConfigKey\<close>: \<open>JSON.stringify\<close> of the five fields in a fixed order. The
  serialiser is the language's, the parameter \<open>stringify\<close>.
\<close>

definition sessionConfigKey :: "(js \<Rightarrow> string) \<Rightarrow> TurnConfig \<Rightarrow> string" where
  "sessionConfigKey stringify config =
     stringify (JObj [(''cwd'', or_null (cwd config)),
                      (''sandbox'', or_null (map_option sandbox_name (sandbox config))),
                      (''approvalPolicy'', or_null (map_option policy_name (approvalPolicy config))),
                      (''model'', or_null (model config)),
                      (''reasoningEffort'', or_null (map_option effort_name (reasoningEffort config)))])"

record CodexInstanceBinding =
  b_instanceId :: string
  b_codexHome :: "string option"

text \<open>
  \<open>RunnerState\<close>. \<open>abort\<close> is the AbortController when there is one, with its signal's
  \<open>aborted\<close> flag.
\<close>

record RunnerState =
  client :: CodexMcpClient
  busy :: bool
  abort :: "bool option"
  configKey :: "string option"
  instanceId :: string
  codexHome :: "string option"

datatype session_call = StartSession | ContinueSession

text \<open>
  The variables which one call of \<open>runTurn\<close> closes over: the runner object \<open>r\<close> it works
  on, the requested fingerprint, the heartbeat clock, and whether its interval timer is
  armed.
\<close>

record TurnClosure =
  tc_runner :: nat
  tc_nextConfigKey :: string
  tc_call :: "session_call option"
  tc_turnStartAt :: nat
  tc_lastNonProgressAt :: nat
  tc_lastHeartbeatAt :: nat
  tc_heartbeatTimer :: bool

text \<open>
  The manager. Runner objects live in a store, \<open>objects\<close>, under a number; \<open>runners\<close> is
  the Map from conversation key to runner object. An object which the Map no longer holds
  is still there for the turn that runs on it. \<open>turns\<close> is every \<open>runTurn\<close> call so far;
  the position of a call is the name of its event sink \<open>emit\<close>. \<open>processBackend\<close> is the
  backend the process environment selects for a new client.
\<close>

record CodexManager =
  objects :: "nat \<rightharpoonup> RunnerState"
  runners :: "string \<rightharpoonup> nat"
  turns :: "TurnClosure list"
  nextRunner :: nat
  processBackend :: AgentBackend

datatype runner_error = ChatBusy

text \<open>\<open>this.runners.get(k)\<close>: the object and its number.\<close>

definition lookup_runner :: "CodexManager \<Rightarrow> string \<Rightarrow> (nat \<times> RunnerState) option" where
  "lookup_runner mgr k =
     (case runners mgr k of
        None \<Rightarrow> None
      | Some i \<Rightarrow> (case objects mgr i of None \<Rightarrow> None | Some r \<Rightarrow> Some (i, r)))"

definition set_runner :: "nat \<Rightarrow> RunnerState \<Rightarrow> CodexManager \<Rightarrow> CodexManager" where
  "set_runner i r mgr = mgr\<lparr>objects := (objects mgr)(i \<mapsto> r)\<rparr>"

text \<open>
  \<open>get\<close>. \<open>String.prototype.trim\<close> is the language's, the parameter \<open>trim\<close>. A runner
  bound to another instance is replaced, unless it is busy.
\<close>

definition CodexManager_get ::
  "(string \<Rightarrow> string) \<Rightarrow> string \<Rightarrow> string \<Rightarrow> CodexInstanceBinding option \<Rightarrow> CodexManager
     \<Rightarrow> runner_error + (nat \<times> RunnerState \<times> CodexManager)" where
  "CodexManager_get trim sid cid binding mgr =
     (let k = chatKey sid cid;
          nextInstanceId = (case binding of
                              Some b \<Rightarrow> if b_instanceId b \<noteq> [] then b_instanceId b else ''default''
                            | None \<Rightarrow> ''default'');
          nextCodexHome = (case binding of
                             Some b \<Rightarrow> (case b_codexHome b of
                                          Some home \<Rightarrow> if trim home \<noteq> [] then Some (trim home) else None
                                        | None \<Rightarrow> None)
                           | None \<Rightarrow> None);
          fresh = \<lparr>client = new_client (processBackend mgr), busy = False, abort = None,
                   configKey = None, instanceId = nextInstanceId, codexHome = nextCodexHome\<rparr>;
          created = (nextRunner mgr, fresh,
                     mgr\<lparr>objects := (objects mgr)(nextRunner mgr \<mapsto> fresh),
                         runners := (runners mgr)(k \<mapsto> nextRunner mgr),
                         nextRunner := nextRunner mgr + 1\<rparr>)
      in case lookup_runner mgr k of
           None \<Rightarrow> Inr created
         | Some (i, r) \<Rightarrow>
             if instanceId r \<noteq> nextInstanceId \<or> codexHome r \<noteq> nextCodexHome
             then (if busy r then Inl ChatBusy else Inr created)
             else Inr (i, r, mgr))"

definition isBusy :: "string \<Rightarrow> string \<Rightarrow> CodexManager \<Rightarrow> bool" where
  "isBusy sid cid mgr =
     (case lookup_runner mgr (chatKey sid cid) of None \<Rightarrow> False | Some (i, r) \<Rightarrow> busy r)"

definition hasPendingApproval :: "string \<Rightarrow> string \<Rightarrow> CodexManager \<Rightarrow> bool" where
  "hasPendingApproval sid cid mgr =
     (case lookup_runner mgr (chatKey sid cid) of
        None \<Rightarrow> False | Some (i, r) \<Rightarrow> hasPendingApprovals (client r))"

definition CodexManager_approve ::
  "string \<Rightarrow> string \<Rightarrow> string \<Rightarrow> string \<Rightarrow> CodexManager \<Rightarrow> bool \<times> CodexManager \<times> effect list" where
  "CodexManager_approve sid cid ident decision mgr =
     (case lookup_runner mgr (chatKey sid cid) of
        None \<Rightarrow> (False, mgr, [])
      | Some (i, r) \<Rightarrow>
          (let (ok, c, effs) = approve ident decision (client r)
           in (ok, set_runner i (r\<lparr>client := c\<rparr>) mgr, effs)))"

text \<open>\<open>controller.abort()\<close>: the signal fires once.\<close>

definition fire_abort :: "bool option \<Rightarrow> bool option \<times> effect list" where
  "fire_abort a = (case a of Some False \<Rightarrow> (Some True, [AbortSignal]) | _ \<Rightarrow> (a, []))"

datatype abort_result = AbortOk | NotRunning

definition CodexManager_abort ::
  "string \<Rightarrow> string \<Rightarrow> CodexManager \<Rightarrow> abort_result \<times> CodexManager \<times> effect list" where
  "CodexManager_abort sid cid mgr =
     (case lookup_runner mgr (chatKey sid cid) of
        None \<Rightarrow> (NotRunning, mgr, [])
      | Some (i, r) \<Rightarrow>
          if \<not> busy r then (NotRunning, mgr, [])
          else (let (n, c, effs) = abortPendingApprovals (client r);
                    (a, sig) = fire_abort (abort r)
                in (AbortOk, set_runner i (r\<lparr>client := c, abort := a\<rparr>) mgr, effs @ sig)))"

text \<open>\<open>reset\<close> takes the runner out of the Map, busy or not; the object stays.\<close>

definition CodexManager_reset :: "string \<Rightarrow> string \<Rightarrow> CodexManager \<Rightarrow> CodexManager" where
  "CodexManager_reset sid cid mgr = mgr\<lparr>runners := (runners mgr)(chatKey sid cid := None)\<rparr>"

text \<open>The effects which tear the agent process or the in-flight call down.\<close>

fun is_teardown :: "effect \<Rightarrow> bool" where
  "is_teardown SigTerm = True"
| "is_teardown (SigKillAfter ms) = True"
| "is_teardown AbortSignal = True"
| "is_teardown e = False"

subsection \<open>What the agent sees of a call\<close>

text \<open>
  A resolver only settles the promise on which the elicitation request handler is
  suspended (\<open>await new Promise(...)\<close>). The handler resumes once the synchronous call
  that called the resolver has returned; only then does it delete its id from the pending
  map and return the answer to the agent. A signal, in contrast, is sent by the call
  itself. So of the effects of one synchronous call the agent sees first the signals, in
  order, and then the answers of the resumed handlers, in the order in which their
  promises were settled.
\<close>

definition elicit_resume :: "string \<Rightarrow> string \<Rightarrow> CodexMcpClient \<Rightarrow> elicit_action \<times> CodexMcpClient" where
  "elicit_resume ident decision c =
     (toElicitResponse decision, c\<lparr>pendingApprovals := AList.delete ident (pendingApprovals c)\<rparr>)"

datatype seen = Signal effect | Answer nat elicit_action

fun signals_of :: "effect list \<Rightarrow> seen list" where
  "signals_of [] = []"
| "signals_of (SigTerm # es) = Signal SigTerm # signals_of es"
| "signals_of (AbortSignal # es) = Signal AbortSignal # signals_of es"
| "signals_of (e # es) = signals_of es"

fun answers_of :: "effect list \<Rightarrow> seen list" where
  "answers_of [] = []"
| "answers_of (Resolve r decision # es) = Answer r (toElicitResponse decision) # answers_of es"
| "answers_of (e # es) = answers_of es"

definition seen_by_agent :: "effect list \<Rightarrow> seen list" where
  "seen_by_agent effs = signals_of effs @ answers_of effs"

subsection \<open>Running a turn\<close>

definition isProgressMsg :: "js \<Rightarrow> bool" where
  "isProgressMsg msg = (isObj msg \<and> getProp msg ''type'' = JStr ''progress'')"

fun is_progress_event :: "CodexRunnerEvent \<Rightarrow> bool" where
  "is_progress_event (Raw msg) = isProgressMsg msg"
| "is_progress_event e = False"

definition progress_msg :: "string \<Rightarrow> string \<Rightarrow> js" where
  "progress_msg stage message =
     JObj [(''type'', JStr ''progress''), (''stage'', JStr stage), (''message'', JStr message)]"

text \<open>
  The wrapper \<open>emit\<close> of a turn notes the time of an event that is not a progress message
  and passes the event to the caller's \<open>onEvent\<close>. The effect \<open>Emit h e\<close> is that call;
  \<open>note_emit\<close> is the bookkeeping.
\<close>

definition note_emit :: "nat \<Rightarrow> effect \<Rightarrow> CodexManager \<Rightarrow> CodexManager" where
  "note_emit now eff mgr =
     (case eff of
        Emit h e \<Rightarrow>
          if h < length (turns mgr) \<and> \<not> is_progress_event e
          then mgr\<lparr>turns := (turns mgr)[h := (turns mgr ! h)\<lparr>tc_lastNonProgressAt := now\<rparr>]\<rparr>
          else mgr
      | _ \<Rightarrow> mgr)"

definition note_emits :: "nat \<Rightarrow> effect list \<Rightarrow> CodexManager \<Rightarrow> CodexManager" where
  "note_emits now effs mgr = fold (note_emit now) effs mgr"

record RunTurnOpts =
  o_sessionId :: string
  o_chatId :: string
  o_prompt :: string
  o_instance :: "CodexInstanceBinding option"
  o_config :: TurnConfig
  o_signal :: "bool option"

datatype turn_outcome =
    Rejected runner_error
  | Threw nat adapter_error
  | Awaiting nat session_call

text \<open>
  The \<open>finally\<close> block of \<open>runTurn\<close>, on the runner object the turn started with. Its
  \<open>clearInterval(heartbeatTimer)\<close> is not reached: \<open>heartbeatTimer\<close> is declared with
  \<open>let\<close> inside the \<open>try\<close> block and is not in scope in \<open>finally\<close>, so the reference
  throws a ReferenceError, which the inner \<open>try/catch\<close> swallows. The timer stays armed.
\<close>

definition runTurn_finally :: "nat \<Rightarrow> CodexManager \<Rightarrow> CodexManager" where
  "runTurn_finally h mgr =
     (if h < length (turns mgr)
      then (case objects mgr (tc_runner (turns mgr ! h)) of
              None \<Rightarrow> mgr
            | Some r \<Rightarrow>
                set_runner (tc_runner (turns mgr ! h))
                  (r\<lparr>client := setEventHandler None (client r), busy := False, abort := None\<rparr>) mgr)
      else mgr)"

definition or_default :: "string option \<Rightarrow> string \<Rightarrow> string" where
  "or_default x d = (case x of Some s \<Rightarrow> if s \<noteq> [] then s else d | None \<Rightarrow> d)"

text \<open>
  \<open>runTurn\<close> from its first line to the backend call it awaits: the busy guard, the new
  AbortController, the heartbeat closure and timer, the caller's signal, the session reset
  on a changed fingerprint, and the choice between \<open>startSession\<close> and \<open>continueSession\<close>.
\<close>

definition runTurn_begin ::
  "(string \<Rightarrow> string) \<Rightarrow> (js \<Rightarrow> string) \<Rightarrow> nat \<Rightarrow> RunTurnOpts \<Rightarrow> CodexManager
     \<Rightarrow> turn_outcome \<times> CodexManager \<times> effect list" where
  "runTurn_begin trim stringify now opts mgr =
     (case CodexManager_get trim (o_sessionId opts) (o_chatId opts) (o_instance opts) mgr of
        Inl err \<Rightarrow> (Rejected err, mgr, [])
      | Inr (i, r, m1) \<Rightarrow>
          if busy r then (Rejected ChatBusy, m1, [])
          else
            (let h = length (turns m1);
                 nextConfigKey = sessionConfigKey stringify (o_config opts);
                 tc = \<lparr>tc_runner = i, tc_nextConfigKey = nextConfigKey,
                       tc_call = None, tc_turnStartAt = now, tc_lastNonProgressAt = now,
                       tc_lastHeartbeatAt = 0, tc_heartbeatTimer = True\<rparr>;
                 c1 = setEventHandler (Some h) (client r);
                 (a, sig) = (case o_signal opts of
                               Some True \<Rightarrow> fire_abort (Some False)
                             | _ \<Rightarrow> (Some False, []));
                 (c2, reset) =
                   (if hasSession c1 \<and> configKey r \<noteq> Some nextConfigKey
                    then (let (c, effs) = resetSessionState c1
                          in (c, emit_to c1 (Raw (progress_msg ''session_reset''
                                   ''session config changed; resetting Codex session'')) @ effs))
                    else (c1, []))
             in if \<not> hasSession c2
                then (Awaiting h StartSession,
                      (set_runner i (r\<lparr>client := startSession_begin c2, busy := True, abort := a\<rparr>) m1)
                        \<lparr>turns := turns m1 @ [tc\<lparr>tc_call := Some StartSession\<rparr>]\<rparr>,
                      sig @ reset @
                      emit_to c2 (Raw (progress_msg ''start_session''
                        (''starting new Codex session (model='' @
                         or_default (model (o_config opts)) ''default'' @ '', cwd='' @
                         or_default (cwd (o_config opts)) ''(default)'' @ '')''))))
                else (case continueSession_begin c2 of
                        Inl err \<Rightarrow>
                          (Threw h err,
                           runTurn_finally h
                             ((set_runner i (r\<lparr>client := c2, busy := True, abort := a\<rparr>) m1)
                                \<lparr>turns := turns m1 @ [tc]\<rparr>),
                           sig @ reset @
                           emit_to c2 (Raw (progress_msg ''continue_session''
                             (''continuing Codex session (model='' @
                              or_default (model (o_config opts)) ''default'' @ '')''))))
                      | Inr c3 \<Rightarrow>
                          (Awaiting h ContinueSession,
                           (set_runner i (r\<lparr>client := c3, busy := True, abort := a\<rparr>) m1)
                              \<lparr>turns := turns m1 @ [tc\<lparr>tc_call := Some ContinueSession\<rparr>]\<rparr>,
                           sig @ reset @
                           emit_to c2 (Raw (progress_msg ''continue_session''
                             (''continuing Codex session (model='' @
                              or_default (model (o_config opts)) ''default'' @ '')'')))))))"

text \<open>\<open>!this.sessionId\<close>\<close>

definition unset :: "string option \<Rightarrow> bool" where
  "unset x = (case x of None \<Rightarrow> True | Some s \<Rightarrow> s = [])"

text \<open>\<open>extractIdentifiers\<close>, on the tool response.\<close>

definition ids_from_item :: "(js \<Rightarrow> string) \<Rightarrow> js \<Rightarrow> CodexMcpClient \<Rightarrow> CodexMcpClient" where
  "ids_from_item toStr item c =
     (let c1 = (if unset (sessionId c) \<and> truthy (getProp item ''sessionId'')
                then c\<lparr>sessionId := Some (js_String toStr (getProp item ''sessionId''))\<rparr> else c)
      in if unset (conversationId c1) \<and> truthy (getProp item ''conversationId'')
         then c1\<lparr>conversationId := Some (js_String toStr (getProp item ''conversationId''))\<rparr>
         else c1)"

definition extractIdentifiers :: "(js \<Rightarrow> string) \<Rightarrow> js \<Rightarrow> CodexMcpClient \<Rightarrow> CodexMcpClient" where
  "extractIdentifiers toStr resp c =
     (let meta = (if truthy (getProp resp ''meta'') then getProp resp ''meta'' else JObj []);
          c1 = (if truthy (getProp meta ''sessionId'')
                then c\<lparr>sessionId := Some (js_String toStr (getProp meta ''sessionId''))\<rparr> else c);
          c2 = (if truthy (getProp meta ''conversationId'')
                then c1\<lparr>conversationId := Some (js_String toStr (getProp meta ''conversationId''))\<rparr>
                else c1)
      in if isArray (getProp resp ''content'')
         then fold (ids_from_item toStr) (objectValues (getProp resp ''content'')) c2
         else c2)"

text \<open>
  \<open>startSession\<close> and \<open>continueSession\<close> after the tool call has resolved with \<open>resp\<close>
  (Codex backend): identifiers, usage and rate limits are read out of the response;
  \<open>extractUsage\<close> throws on a nullish response. With the Claude backend the call resolves
  when the child exits and nothing is read.
\<close>

definition session_call_end ::
  "(js \<Rightarrow> string) \<Rightarrow> js \<Rightarrow> CodexMcpClient \<Rightarrow> adapter_error option \<times> CodexMcpClient" where
  "session_call_end toStr resp c =
     (if backend c = Claude then (None, c)
      else let c1 = extractIdentifiers toStr resp c
           in case extractUsage resp of
                Inl err \<Rightarrow> (Some err, c1)
              | Inr usageFromResp \<Rightarrow>
                  (let c2 = (case usageFromResp of Some u \<Rightarrow> c1\<lparr>lastUsage := Some u\<rparr> | None \<Rightarrow> c1)
                   in (None, case extractRateLimits resp of
                               Some rl \<Rightarrow> c2\<lparr>lastRateLimits := Some rl\<rparr> | None \<Rightarrow> c2)))"

datatype call_result = Resolved js | RejectedCall

text \<open>
  The rest of \<open>runTurn\<close>, when the awaited backend call has resolved with a response or
  rejected: a resolved \<open>startSession\<close> records the fingerprint, the result carries the last
  usage and rate limits when the response is truthy, and \<open>finally\<close> releases the runner.
\<close>

definition runTurn_settle ::
  "(js \<Rightarrow> string) \<Rightarrow> nat \<Rightarrow> call_result \<Rightarrow> CodexManager
     \<Rightarrow> (js option \<times> js option) option \<times> CodexManager" where
  "runTurn_settle toStr h res mgr =
     (if \<not> h < length (turns mgr) then (None, mgr)
      else case objects mgr (tc_runner (turns mgr ! h)) of
        None \<Rightarrow> (None, mgr)
      | Some r \<Rightarrow>
         (case res of
            RejectedCall \<Rightarrow> (None, runTurn_finally h mgr)
          | Resolved resp \<Rightarrow>
              (let tc = turns mgr ! h;
                   (err, c) = session_call_end toStr resp (client r)
               in case err of
                    Some e \<Rightarrow> (None, runTurn_finally h (set_runner (tc_runner tc) (r\<lparr>client := c\<rparr>) mgr))
                  | None \<Rightarrow>
                      (Some (if backend c = Claude \<or> truthy resp
                             then (lastUsage c, lastRateLimits c) else (None, None)),
                       runTurn_finally h
                         (set_runner (tc_runner tc)
                            (r\<lparr>client := c,
                               configKey := (if tc_call tc = Some StartSession
                                             then Some (tc_nextConfigKey tc) else configKey r)\<rparr>)
                            mgr)))))"

subsection \<open>Heartbeat\<close>

definition heartbeatEveryMs :: int where
  "heartbeatEveryMs = 10000"

text \<open>
  The heartbeat message: the quiet time in seconds (\<open>Math.round\<close> of a non-negative
  quotient), whether an approval is pending, and the time since the turn started.
\<close>

definition heartbeat_msg :: "(js \<Rightarrow> string) \<Rightarrow> nat \<Rightarrow> TurnClosure \<Rightarrow> bool \<Rightarrow> js" where
  "heartbeat_msg toStr now tc pending =
     JObj [(''type'', JStr ''progress''),
           (''stage'', JStr ''heartbeat''),
           (''message'', JStr (''still running; quiet='' @
               toStr (JNum (of_int (max 0 ((int now - int (tc_lastNonProgressAt tc) + 500) div 1000)))) @
               ''s; pending_approval='' @ (if pending then ''1'' else ''0''))),
           (''detail'', JObj [(''sinceMs'',
               JNum (of_int (max 0 (int now - int (tc_turnStartAt tc)))))])]"

text \<open>One firing of the interval timer of turn \<open>h\<close>, at clock reading \<open>now\<close>.\<close>

definition heartbeat_tick ::
  "(js \<Rightarrow> string) \<Rightarrow> nat \<Rightarrow> nat \<Rightarrow> CodexManager \<Rightarrow> CodexManager \<times> effect list" where
  "heartbeat_tick toStr now h mgr =
     (if \<not> h < length (turns mgr) then (mgr, [])
      else let tc = turns mgr ! h
      in if \<not> tc_heartbeatTimer tc then (mgr, [])
         else if int now - int (tc_lastNonProgressAt tc) < heartbeatEveryMs then (mgr, [])
         else if int now - int (tc_lastHeartbeatAt tc) < heartbeatEveryMs then (mgr, [])
         else (let pending = (case objects mgr (tc_runner tc) of
                                Some r \<Rightarrow> hasPendingApprovals (client r)
                              | None \<Rightarrow> False)
               in (mgr\<lparr>turns := (turns mgr)[h := tc\<lparr>tc_lastHeartbeatAt := now\<rparr>]\<rparr>,
                   [Emit h (Raw (heartbeat_msg toStr now tc pending))])))"

text \<open>All armed timers fire, in the order in which they were set.\<close>

fun timers_fire ::
  "(js \<Rightarrow> string) \<Rightarrow> nat \<Rightarrow> nat list \<Rightarrow> CodexManager \<Rightarrow> CodexManager \<times> effect list" where
  "timers_fire toStr now [] mgr = (mgr, [])"
| "timers_fire toStr now (h # hs) mgr =
     (let (m1, e1) = heartbeat_tick toStr now h mgr;
          (m2, e2) = timers_fire toStr now hs m1
      in (m2, e1 @ e2))"

definition timer_tick :: "(js \<Rightarrow> string) \<Rightarrow> nat \<Rightarrow> CodexManager \<Rightarrow> CodexManager \<times> effect list" where
  "timer_tick toStr now mgr = timers_fire toStr now [0 ..< length (turns mgr)] mgr"

text \<open>
  A \<open>codex/event\<close> notification, and an elicitation request, reaching the client of
  runner object \<open>i\<close>.
\<close>

definition CodexManager_notify ::
  "(js \<Rightarrow> string) \<Rightarrow> nat \<Rightarrow> nat \<Rightarrow> js \<Rightarrow> CodexManager \<Rightarrow> CodexManager \<times> effect list" where
  "CodexManager_notify toStr now i msg mgr =
     (case objects mgr i of
        None \<Rightarrow> (mgr, [])
      | Some r \<Rightarrow>
          (case codexEvent toStr msg (client r) of
             Inl err \<Rightarrow> (mgr, [])
           | Inr (c, effs) \<Rightarrow> (note_emits now effs (set_runner i (r\<lparr>client := c\<rparr>) mgr), effs)))"

definition CodexManager_elicit ::
  "(js \<Rightarrow> string) \<Rightarrow> nat \<Rightarrow> nat \<Rightarrow> js \<Rightarrow> CodexManager \<Rightarrow> CodexManager \<times> effect list" where
  "CodexManager_elicit toStr now i p mgr =
     (case objects mgr i of
        None \<Rightarrow> (mgr, [])
      | Some r \<Rightarrow>
          (let (resolver, c, effs) = elicitRequest toStr now p (client r)
           in (note_emits now effs (set_runner i (r\<lparr>client := c\<rparr>) mgr), effs)))"

section \<open>Remote turn gateway (sessiond)\<close>

record StartInstance =
  si_instanceId :: string
  si_codexHome :: "string option"
  si_backend :: "AgentBackend option"

text \<open>The body of \<open>POST /v1/chats/start\<close>, with the field types of \<open>StartSchema\<close>.\<close>

record StartBody =
  sb_sessionId :: string
  sb_chatId :: string
  sb_prompt :: string
  sb_assistantMessageId :: "string option"
  sb_instance :: "StartInstance option"
  sb_config :: TurnConfig

text \<open>The \<open>min(1)\<close> constraints of \<open>StartSchema\<close>.\<close>

definition StartSchema_ok :: "StartBody \<Rightarrow> bool" where
  "StartSchema_ok b =
     (sb_sessionId b \<noteq> [] \<and> sb_chatId b \<noteq> [] \<and> sb_prompt b \<noteq> [] \<and>
      (case sb_assistantMessageId b of Some a \<Rightarrow> a \<noteq> [] | None \<Rightarrow> True) \<and>
      (case sb_instance b of
         Some i \<Rightarrow> si_instanceId i \<noteq> [] \<and>
                   (case si_codexHome i of Some home \<Rightarrow> home \<noteq> [] | None \<Rightarrow> True)
       | None \<Rightarrow> True))"

datatype http_response = HttpOk | HttpBadRequest | HttpConflict string | HttpNotFound

text \<open>
  The gateway process: its stream buffers, its \<open>CodexManager\<close>, and for each turn the
  request whose \<open>onEvent\<close> closure receives the turn's events.
\<close>

record Sessiond =
  streams :: sessiond_streams
  codex :: CodexManager
  sinks :: "nat \<rightharpoonup> StartBody"

text \<open>\<open>x || null\<close> for an optional string.\<close>

definition truthy_or_null :: "string option \<Rightarrow> js" where
  "truthy_or_null x = (case x of Some s \<Rightarrow> if s \<noteq> [] then JStr s else JNull | None \<Rightarrow> JNull)"

definition request_js :: "CodexApprovalRequest \<Rightarrow> js" where
  "request_js req =
     JObj [(''id'', JStr (ar_id req)),
           (''message'', case ar_message req of Some m \<Rightarrow> JStr m | None \<Rightarrow> JUndefined),
           (''command'', case ar_command req of Some xs \<Rightarrow> JArr (map JStr xs) | None \<Rightarrow> JUndefined),
           (''cwd'', case ar_cwd req of Some d \<Rightarrow> JStr d | None \<Rightarrow> JUndefined)]"

text \<open>The \<open>onEvent\<close> callback which the start handler passes to \<open>runTurn\<close>.\<close>

definition sessiond_onEvent ::
  "nat \<Rightarrow> StartBody \<Rightarrow> CodexRunnerEvent \<Rightarrow> sessiond_streams \<Rightarrow> sessiond_streams" where
  "sessiond_onEvent now body e m =
     (case e of
        AgentMessage t \<Rightarrow>
          snd (sessiond_appendStreamEvent now (sb_sessionId body) (sb_chatId body) ''delta''
                 (JObj [(''text'', JStr t),
                        (''assistantMessageId'', truthy_or_null (sb_assistantMessageId body))]) m)
      | ApprovalRequest req \<Rightarrow>
          snd (sessiond_appendStreamEvent now (sb_sessionId body) (sb_chatId body)
                 ''approval_request'' (request_js req) m)
      | Raw msg \<Rightarrow>
          if isProgressMsg msg
          then snd (sessiond_appendStreamEvent now (sb_sessionId body) (sb_chatId body) ''progress''
                 (JObj [(''stage'', if isString (getProp msg ''stage'') then getProp msg ''stage''
                                    else JStr ''progress''),
                        (''message'', if isString (getProp msg ''message'') then getProp msg ''message''
                                      else JStr []),
                        (''detail'', coalesce [getProp msg ''detail'', JNull])]) m)
          else snd (sessiond_appendStreamEvent now (sb_sessionId body) (sb_chatId body)
                 ''codex_event'' msg m))"

definition apply_effect :: "nat \<Rightarrow> effect \<Rightarrow> Sessiond \<Rightarrow> Sessiond" where
  "apply_effect now eff sd =
     (case eff of
        Emit h e \<Rightarrow>
          (case sinks sd h of
             Some body \<Rightarrow> sd\<lparr>streams := sessiond_onEvent now body e (streams sd)\<rparr>
           | None \<Rightarrow> sd)
      | _ \<Rightarrow> sd)"

definition apply_effects :: "nat \<Rightarrow> effect list \<Rightarrow> Sessiond \<Rightarrow> Sessiond" where
  "apply_effects now effs sd = fold (apply_effect now) effs sd"

definition turn_error_data :: "string \<Rightarrow> js" where
  "turn_error_data message =
     JObj [(''message'', JStr (if message \<noteq> [] then message else ''codex_error''))]"

text \<open>
  \<open>POST /v1/chats/start\<close>: the handler, with the part of the turn that runs before it
  answers (\<open>runTurn\<close> up to its first \<open>await\<close>, and the \<open>catch\<close> of a turn that was
  rejected at once).
\<close>

definition sessiond_start ::
  "(string \<Rightarrow> string) \<Rightarrow> (js \<Rightarrow> string) \<Rightarrow> nat \<Rightarrow> StartBody \<Rightarrow> Sessiond
     \<Rightarrow> http_response \<times> Sessiond \<times> effect list" where
  "sessiond_start trim stringify now body sd =
     (if \<not> StartSchema_ok body then (HttpBadRequest, sd, [])
      else if isBusy (sb_sessionId body) (sb_chatId body) (codex sd)
      then (HttpConflict ''chat_busy'', sd, [])
      else
        (let sid = sb_sessionId body; cid = sb_chatId body;
             m1 = sessiond_resetStream now sid cid (streams sd);
             m2 = snd (sessiond_appendStreamEvent now sid cid ''start''
                    (JObj [(''ok'', JBool True),
                           (''assistantMessageId'', truthy_or_null (sb_assistantMessageId body)),
                           (''instanceId'',
                              truthy_or_null (map_option si_instanceId (sb_instance body)))]) m1);
             opts = \<lparr>o_sessionId = sid, o_chatId = cid, o_prompt = sb_prompt body,
                     o_instance = map_option
                        (\<lambda>i. \<lparr>b_instanceId = si_instanceId i, b_codexHome = si_codexHome i\<rparr>)
                        (sb_instance body),
                     o_config = sb_config body, o_signal = None\<rparr>;
             (outcome, mgr, effs) = runTurn_begin trim stringify now opts (codex sd);
             sd1 = sd\<lparr>streams := m2, codex := mgr,
                      sinks := (case outcome of
                                  Rejected err \<Rightarrow> sinks sd
                                | Threw h err \<Rightarrow> (sinks sd)(h \<mapsto> body)
                                | Awaiting h call \<Rightarrow> (sinks sd)(h \<mapsto> body))\<rparr>;
             sd2 = apply_effects now effs sd1;
             sd3 = (case outcome of
                      Rejected err \<Rightarrow>
                        sd2\<lparr>streams := snd (sessiond_appendStreamEvent now sid cid ''turn_error''
                                (turn_error_data ''chat_busy'') (streams sd2))\<rparr>
                    | Threw h err \<Rightarrow>
                        sd2\<lparr>streams := snd (sessiond_appendStreamEvent now sid cid ''turn_error''
                                (turn_error_data ''missing sessionId'') (streams sd2))\<rparr>
                    | Awaiting h call \<Rightarrow> sd2)
         in (HttpOk, sd3, effs)))"

text \<open>
  The turn's promise settles: the rest of \<open>runTurn\<close>, then the usage, rate-limit and
  \<open>done\<close> events, or the \<open>turn_error\<close> event with the message of the error.
\<close>

definition sessiond_settle ::
  "(js \<Rightarrow> string) \<Rightarrow> nat \<Rightarrow> nat \<Rightarrow> call_result \<Rightarrow> string \<Rightarrow> Sessiond \<Rightarrow> Sessiond" where
  "sessiond_settle toStr now h res message sd =
     (let (out, mgr) = runTurn_settle toStr h res (codex sd)
      in case sinks sd h of
           None \<Rightarrow> sd\<lparr>codex := mgr\<rparr>
         | Some body \<Rightarrow>
             (let sid = sb_sessionId body; cid = sb_chatId body
              in case out of
                   None \<Rightarrow>
                     sd\<lparr>codex := mgr,
                        streams := snd (sessiond_appendStreamEvent now sid cid ''turn_error''
                                     (turn_error_data message) (streams sd))\<rparr>
                 | Some (usage, rateLimits) \<Rightarrow>
                     (let m1 = (case usage of
                                  Some u \<Rightarrow> snd (sessiond_appendStreamEvent now sid cid ''codex_usage'' u (streams sd))
                                | None \<Rightarrow> streams sd);
                          m2 = (case rateLimits of
                                  Some r \<Rightarrow> snd (sessiond_appendStreamEvent now sid cid ''codex_rate_limits'' r m1)
                                | None \<Rightarrow> m1)
                      in sd\<lparr>codex := mgr,
                            streams := snd (sessiond_appendStreamEvent now sid cid ''done''
                                         (JObj [(''ok'', JBool True)]) m2)\<rparr>)))"

text \<open>The interval timers fire; a notification arrives from the agent of runner object \<open>i\<close>.\<close>

definition sessiond_tick :: "(js \<Rightarrow> string) \<Rightarrow> nat \<Rightarrow> Sessiond \<Rightarrow> Sessiond" where
  "sessiond_tick toStr now sd =
     (let (mgr, effs) = timer_tick toStr now (codex sd)
      in apply_effects now effs (sd\<lparr>codex := mgr\<rparr>))"

definition sessiond_notify :: "(js \<Rightarrow> string) \<Rightarrow> nat \<Rightarrow> nat \<Rightarrow> js \<Rightarrow> Sessiond \<Rightarrow> Sessiond" where
  "sessiond_notify toStr now i msg sd =
     (let (mgr, effs) = CodexManager_notify toStr now i msg (codex sd)
      in apply_effects now effs (sd\<lparr>codex := mgr\<rparr>))"

definition new_sessiond :: "AgentBackend \<Rightarrow> Sessiond" where
  "new_sessiond b =
     \<lparr>streams = Map.empty,
      codex = \<lparr>objects = Map.empty, runners = Map.empty, turns = [], nextRunner = 0,
               processBackend = b\<rparr>,
      sinks = Map.empty\<rparr>"


text \<open>The kinds of the events of a conversation's stream, and the times of its heartbeats.\<close>

definition stream_kinds :: "string \<Rightarrow> string \<Rightarrow> Sessiond \<Rightarrow> string list" where
  "stream_kinds sid cid sd =
     (case streams sd (chatKey sid cid) of None \<Rightarrow> [] | Some s \<Rightarrow> map se_event (events s))"

definition is_heartbeat :: "StreamEvent \<Rightarrow> bool" where
  "is_heartbeat e = (se_event e = ''progress'' \<and> getProp (se_data e) ''stage'' = JStr ''heartbeat'')"

definition heartbeat_times :: "string \<Rightarrow> string \<Rightarrow> Sessiond \<Rightarrow> nat list" where
  "heartbeat_times sid cid sd =
     (case streams sd (chatKey sid cid) of
        None \<Rightarrow> [] | Some s \<Rightarrow> map se_ts (filter is_heartbeat (events s)))"

text \<open>The stages of the progress messages among the effects, in order.\<close>

fun progress_stages :: "effect list \<Rightarrow> string list" where
  "progress_stages [] = []"
| "progress_stages (Emit h (Raw msg) # es) =
     (if isProgressMsg msg
      then (case getProp msg ''stage'' of JStr s \<Rightarrow> [s] | _ \<Rightarrow> []) else []) @ progress_stages es"
| "progress_stages (e # es) = progress_stages es"

section \<open>Rate-limit windows (web server)\<close>











section \<open>Reconciliation bridge\<close>

subsection \<open>Known cursors (SessiondClient)\<close>






subsection \<open>Message texts of the web-server store\<close>

text \<open>
  The chats of \<open>MemoryStore\<close>, as far as \<open>setMessageText\<close> and \<open>appendToMessageText\<close> touch
  them: the messages of a chat, the chat's \<open>updatedAt\<close>, and the timer which
  \<open>markForPersist\<close> arms when the store has a persistence path.
\<close>

record ChatMessage =
  cm_id :: string
  cm_role :: string
  cm_text :: string
  cm_createdAt :: nat









subsection \<open>Mirroring the gateway's stream (syncStreamFromSessiond)\<close>






subsection \<open>The poll loop of a remote turn (SessiondClient.runTurn)\<close>







section \<open>Example states\<close>

text \<open>
  A conversation \<open>s:c\<close> whose runner holds an agent session started under model \<open>gpt-a\<close>;
  when it is busy, two approvals are pending and the turn's AbortController is live.
\<close>

definition example_stringify :: "js \<Rightarrow> string" where
  "example_stringify v = (case getProp v ''model'' of JStr s \<Rightarrow> s | _ \<Rightarrow> ''null'')"

definition example_runner :: "bool \<Rightarrow> RunnerState" where
  "example_runner b =
     \<lparr>client = (new_client Codex)\<lparr>sessionId := Some ''sess-1'',
                 pendingApprovals := (if b then [(''a'', 0), (''b'', 1)] else [])\<rparr>,
      busy = b, abort = (if b then Some False else None), configKey = Some ''gpt-a'',
      instanceId = ''default'', codexHome = None\<rparr>"

definition example_manager :: "bool \<Rightarrow> CodexManager" where
  "example_manager b =
     \<lparr>objects = [0 \<mapsto> example_runner b], runners = [chatKey ''s'' ''c'' \<mapsto> 0], turns = [],
      nextRunner = 1, processBackend = Codex\<rparr>"

definition example_config :: "string \<Rightarrow> TurnConfig" where
  "example_config m =
     \<lparr>cwd = None, sandbox = None, approvalPolicy = None, model = Some m, reasoningEffort = None\<rparr>"

definition example_opts :: "string \<Rightarrow> RunTurnOpts" where
  "example_opts m =
     \<lparr>o_sessionId = ''s'', o_chatId = ''c'', o_prompt = ''hi'', o_instance = None,
      o_config = example_config m, o_signal = None\<rparr>"

definition example_body :: StartBody where
  "example_body =
     \<lparr>sb_sessionId = ''s'', sb_chatId = ''c'', sb_prompt = ''hi'',
      sb_assistantMessageId = Some ''m1'', sb_instance = None, sb_config = example_config ''gpt-a''\<rparr>"






section \<open>Properties of the event stream buffer\<close>

lemma retained_ok_clear: "retained_ok cap (clear_stream now s)"
  by (simp add: retained_ok_def clear_stream_def)

lemma retained_ok_push:
  assumes "retained_ok cap s"
  shows "retained_ok cap (snd (push_event cap now event data s))"
proof (cases "length (events s) < cap")
  case True
  with assms have len: "length (events s) = nextId s - 1" and pos: "1 \<le> nextId s"
    by (auto simp: retained_ok_def)
  from assms len pos have ids: "map se_id (events s) = [1 ..< nextId s]"
    by (simp add: retained_ok_def)
  from True len pos ids show ?thesis
    by (simp add: retained_ok_def push_event_def splice_oldest_def Let_def)
next
  case False
  define e where "e = \<lparr>se_id = nextId s, se_event = event, se_data = data, se_ts = now\<rparr>"
  define es where "es = splice_oldest cap (events s @ [e])"
  from False assms have len: "length (events s) = cap" and big: "cap \<le> nextId s - 1"
    and pos: "1 \<le> nextId s"
    by (auto simp: retained_ok_def)
  from assms len have ids: "map se_id (events s) = [nextId s - cap ..< nextId s]"
    by (simp add: retained_ok_def)
  have es: "es = drop 1 (events s @ [e])"
    using len by (simp add: es_def splice_oldest_def)
  have les: "length es = cap"
    using len by (simp add: es)
  have "map se_id es = drop 1 (map se_id (events s) @ [nextId s])"
    by (simp add: es e_def drop_map [symmetric] del: drop_append)
  also have "\<dots> = drop 1 [nextId s - cap ..< Suc (nextId s)]"
    using ids pos by simp
  also have "\<dots> = [Suc (nextId s) - cap ..< Suc (nextId s)]"
    using big pos by (simp add: Suc_diff_le)
  finally have mes: "map se_id es = [Suc (nextId s) - cap ..< Suc (nextId s)]" .
  have "snd (push_event cap now event data s) =
        s\<lparr>status := latch_status event (status s), nextId := nextId s + 1,
          events := es, updatedAt := now\<rparr>"
    by (simp add: push_event_def Let_def es_def e_def)
  with les mes big pos show ?thesis
    by (simp add: retained_ok_def)
qed

lemma retained_ok_status [simp]: "retained_ok cap (s\<lparr>status := x\<rparr>) = retained_ok cap s"
  by (simp add: retained_ok_def)

lemma retained_ok_listeners [simp]: "retained_ok cap (s\<lparr>listeners := x\<rparr>) = retained_ok cap s"
  by (simp add: retained_ok_def)

lemma filter_upt_above:
  "filter (\<lambda>i. c < int i) [lo ..< hi] = [max (nat (c + 1)) lo ..< hi]"
proof (induction hi)
  case 0
  show ?case by simp
next
  case (Suc hi)
  show ?case
  proof (cases "lo \<le> hi")
    case True
    with Suc show ?thesis by (cases "nat (c + 1) \<le> hi") auto
  next
    case False
    then show ?thesis by simp
  qed
qed

lemma events_since_ids:
  assumes "retained_ok cap s"
  shows "map se_id (events_since c s) =
         [max (nat (c + 1)) (nextId s - length (events s)) ..< nextId s]"
proof -
  have "map se_id (events_since c s) = filter (\<lambda>i. c < int i) (map se_id (events s))"
    by (simp add: events_since_def filter_map comp_def)
  also have "\<dots> = filter (\<lambda>i. c < int i) [nextId s - length (events s) ..< nextId s]"
    using assms by (simp add: retained_ok_def)
  finally show ?thesis by (simp add: filter_upt_above)
qed

lemma push_event_shape:
  "push_event cap now event data s = (e, s') \<Longrightarrow>
   se_id e = nextId s \<and> nextId s' = nextId s + 1 \<and>
   events s' = drop (Suc (length (events s)) - cap) (events s @ [e])"
  by (auto simp: push_event_def Let_def splice_oldest_def)

subsection \<open>Gateway\<close>

lemma sessiond_ensure_ok:
  assumes "\<forall>k s. m k = Some s \<longrightarrow> retained_ok cap s"
  shows "retained_ok cap (fst (sessiond_ensureStream now sid cid m))"
    and "\<forall>k s. snd (sessiond_ensureStream now sid cid m) k = Some s \<longrightarrow> retained_ok cap s"
  using assms
  by (auto simp: sessiond_ensureStream_def Let_def retained_ok_def split: option.splits)

lemma sessiond_step_ok:
  assumes "\<forall>k s. m k = Some s \<longrightarrow> retained_ok 4000 s"
  shows "\<forall>k s. sessiond_step op m k = Some s \<longrightarrow> retained_ok 4000 s"
proof (cases op)
  case (SdReset now sid cid)
  with sessiond_ensure_ok(2) [OF assms, of now sid cid] show ?thesis
    by (auto simp: sessiond_resetStream_def retained_ok_clear split: prod.splits)
next
  case (SdAppend now sid cid event data)
  obtain s m1 where en: "sessiond_ensureStream now sid cid m = (s, m1)"
    by (cases "sessiond_ensureStream now sid cid m")
  with sessiond_ensure_ok [OF assms, of now sid cid]
  have s: "retained_ok 4000 s" and m1: "\<forall>k s. m1 k = Some s \<longrightarrow> retained_ok 4000 s"
    by auto
  from retained_ok_push [OF s, of now event data] m1 en SdAppend show ?thesis
    by (auto simp: sessiond_appendStreamEvent_def split: prod.splits)
next
  case (SdRead now sid cid)
  with sessiond_ensure_ok(2) [OF assms, of now sid cid] show ?thesis by simp
next
  case (SdSetIdle now sid cid)
  with sessiond_ensure_ok [OF assms, of now sid cid] show ?thesis
    by (auto split: prod.splits)
next
  case (SdDelete key)
  with assms show ?thesis by auto
qed

lemma sessiond_fold_ok:
  "\<forall>k s. m k = Some s \<longrightarrow> retained_ok 4000 s \<Longrightarrow>
   \<forall>k s. fold sessiond_step ops m k = Some s \<longrightarrow> retained_ok 4000 s"
proof (induction ops arbitrary: m)
  case Nil
  then show ?case by simp
next
  case (Cons op ops)
  from Cons.IH [OF sessiond_step_ok [OF Cons.prems]] show ?case by simp
qed

lemma sessiond_run_ok: "\<forall>k s. sessiond_run ops k = Some s \<longrightarrow> retained_ok 4000 s"
  unfolding sessiond_run_def by (rule sessiond_fold_ok) simp

subsection \<open>Web-server store\<close>

lemma store_ensure_ok:
  assumes "\<forall>k s. streamsByChatKey st k = Some s \<longrightarrow> retained_ok cap s"
  shows "retained_ok cap (fst (MemoryStore_ensureStream now sid cid st))"
    and "\<forall>k s. streamsByChatKey (snd (MemoryStore_ensureStream now sid cid st)) k = Some s
           \<longrightarrow> retained_ok cap s"
  using assms
  by (auto simp: MemoryStore_ensureStream_def Let_def retained_ok_def split: option.splits)

lemma store_step_ok:
  assumes "\<forall>k s. streamsByChatKey st k = Some s \<longrightarrow> retained_ok 2000 s"
  shows "\<forall>k s. streamsByChatKey (store_step op st) k = Some s \<longrightarrow> retained_ok 2000 s"
proof (cases op)
  case (MsReset now sid cid)
  with store_ensure_ok(2) [OF assms, of now sid cid] show ?thesis
    by (auto simp: MemoryStore_resetStream_def retained_ok_clear split: prod.splits)
next
  case (MsAppend now sid cid event data)
  obtain s st1 where en: "MemoryStore_ensureStream now sid cid st = (s, st1)"
    by (cases "MemoryStore_ensureStream now sid cid st")
  with store_ensure_ok [OF assms, of now sid cid]
  have s: "retained_ok 2000 s"
    and st1: "\<forall>k s. streamsByChatKey st1 k = Some s \<longrightarrow> retained_ok 2000 s"
    by auto
  from retained_ok_push [OF s, of now event data] st1 en MsAppend show ?thesis
    by (auto simp: MemoryStore_appendStreamEvent_def split: prod.splits)
next
  case (MsRead now sid cid)
  with store_ensure_ok(2) [OF assms, of now sid cid] show ?thesis by simp
next
  case (MsSubscribe now sid cid fn)
  with store_ensure_ok [OF assms, of now sid cid] show ?thesis
    by (auto simp: MemoryStore_subscribeStream_def split: prod.splits)
next
  case (MsUnsubscribe sid cid fn)
  with assms show ?thesis
    by (auto simp: MemoryStore_unsubscribe_def split: option.splits)
next
  case (MsDelete sid cid)
  with assms show ?thesis by (auto simp: MemoryStore_deleteStream_def)
qed

lemma store_fold_ok:
  "\<forall>k s. streamsByChatKey st k = Some s \<longrightarrow> retained_ok 2000 s \<Longrightarrow>
   \<forall>k s. streamsByChatKey (fold store_step ops st) k = Some s \<longrightarrow> retained_ok 2000 s"
proof (induction ops arbitrary: st)
  case Nil
  then show ?case by simp
next
  case (Cons op ops)
  from Cons.IH [OF store_step_ok [OF Cons.prems]] show ?case by simp
qed

lemma store_run_ok:
  "\<forall>k s. streamsByChatKey (store_run ops) k = Some s \<longrightarrow> retained_ok 2000 s"
  unfolding store_run_def by (rule store_fold_ok) (simp add: empty_store_def)

subsection \<open>The buffer invariant and replay\<close>

text \<open>
  Claim C3. In every state that the gateway (capacity 4000) and the web-server store
  (capacity 2000) can reach, a conversation's buffer holds ids that count up by one, the
  newest \<open>min cap (nextId - 1)\<close> of the ids \<open>1 .. nextId - 1\<close> handed out since the last
  reset; an append hands out \<open>nextId\<close> and drops only a prefix of the log; and
  \<open>listStreamEventsSince\<close> returns exactly the retained events with an id above the
  cursor, in id order.
\<close>

theorem stream_ids_contiguous_listSince_exact:
  "(let m = sessiond_run ops;
        s = fst (sessiond_ensureStream now sid cid m);
        r = fst (sessiond_listStreamEventsSince now sid cid afterId m);
        (e, m') = sessiond_appendStreamEvent now sid cid event data m
    in 1 \<le> nextId s \<and> length (events s) = min 4000 (nextId s - 1) \<and>
       map se_id (events s) = [nextId s - length (events s) ..< nextId s] \<and>
       r = filter (\<lambda>x. afterId < int (se_id x)) (events s) \<and>
       map se_id r = [max (nat (afterId + 1)) (nextId s - length (events s)) ..< nextId s] \<and>
       se_id e = nextId s \<and>
       (\<exists>s'. m' (chatKey sid cid) = Some s' \<and> nextId s' = nextId s + 1 \<and>
             events s' = drop (Suc (length (events s)) - 4000) (events s @ [e]))) \<and>
   (let st = store_run mops;
        s = fst (MemoryStore_ensureStream now sid cid st);
        r = fst (MemoryStore_listStreamEventsSince now sid cid afterId st);
        (e, st') = MemoryStore_appendStreamEvent now sid cid event data st
    in 1 \<le> nextId s \<and> length (events s) = min 2000 (nextId s - 1) \<and>
       map se_id (events s) = [nextId s - length (events s) ..< nextId s] \<and>
       r = filter (\<lambda>x. afterId < int (se_id x)) (events s) \<and>
       map se_id r = [max (nat (afterId + 1)) (nextId s - length (events s)) ..< nextId s] \<and>
       se_id e = nextId s \<and>
       (\<exists>s'. streamsByChatKey st' (chatKey sid cid) = Some s' \<and> nextId s' = nextId s + 1 \<and>
             events s' = drop (Suc (length (events s)) - 2000) (events s @ [e])))"
proof -
  let ?m = "sessiond_run ops"
  obtain s m1 where en: "sessiond_ensureStream now sid cid ?m = (s, m1)"
    by (cases "sessiond_ensureStream now sid cid ?m")
  obtain e s' where pe: "push_event 4000 now event data s = (e, s')"
    by (cases "push_event 4000 now event data s")
  have "retained_ok 4000 (fst (sessiond_ensureStream now sid cid ?m))"
    by (rule sessiond_ensure_ok(1) [OF sessiond_run_ok])
  with en have ok: "retained_ok 4000 s" by simp
  have gateway:
    "1 \<le> nextId s \<and> length (events s) = min 4000 (nextId s - 1) \<and>
     map se_id (events s) = [nextId s - length (events s) ..< nextId s] \<and>
     map se_id (filter (\<lambda>x. afterId < int (se_id x)) (events s))
       = [max (nat (afterId + 1)) (nextId s - length (events s)) ..< nextId s] \<and>
     se_id e = nextId s \<and> nextId s' = nextId s + 1 \<and>
     events s' = drop (Suc (length (events s)) - 4000) (events s @ [e])"
    using ok events_since_ids [OF ok, of afterId] push_event_shape [OF pe]
    by (simp add: retained_ok_def events_since_def)
  let ?st = "store_run mops"
  obtain w st1 where wen: "MemoryStore_ensureStream now sid cid ?st = (w, st1)"
    by (cases "MemoryStore_ensureStream now sid cid ?st")
  obtain e2 w' where pw: "push_event 2000 now event data w = (e2, w')"
    by (cases "push_event 2000 now event data w")
  have "retained_ok 2000 (fst (MemoryStore_ensureStream now sid cid ?st))"
    by (rule store_ensure_ok(1) [OF store_run_ok])
  with wen have wok: "retained_ok 2000 w" by simp
  have web:
    "1 \<le> nextId w \<and> length (events w) = min 2000 (nextId w - 1) \<and>
     map se_id (events w) = [nextId w - length (events w) ..< nextId w] \<and>
     map se_id (filter (\<lambda>x. afterId < int (se_id x)) (events w))
       = [max (nat (afterId + 1)) (nextId w - length (events w)) ..< nextId w] \<and>
     se_id e2 = nextId w \<and> nextId w' = nextId w + 1 \<and>
     events w' = drop (Suc (length (events w)) - 2000) (events w @ [e2])"
    using wok events_since_ids [OF wok, of afterId] push_event_shape [OF pw]
    by (simp add: retained_ok_def events_since_def)
  from gateway web show ?thesis
    by (auto simp: Let_def en pe wen pw sessiond_listStreamEventsSince_def
        sessiond_appendStreamEvent_def MemoryStore_listStreamEventsSince_def
        MemoryStore_appendStreamEvent_def events_since_def)
qed

subsection \<open>Reset keeps the subscribers\<close>

lemma store_append_existing:
  assumes "streamsByChatKey st (chatKey sid cid) = Some s"
    and "MemoryStore_appendStreamEvent now sid cid event data st = (e, st')"
  shows "e = \<lparr>se_id = nextId s, se_event = event, se_data = data, se_ts = now\<rparr>"
    and "\<exists>s'. streamsByChatKey st' (chatKey sid cid) = Some s' \<and>
              listeners s' = listeners s \<and> nextId s' = nextId s + 1"
    and "inbox st' = (\<lambda>fn. if fn \<in> listeners s then inbox st fn @ [e] else inbox st fn)"
  using assms
  by (auto simp: MemoryStore_appendStreamEvent_def MemoryStore_ensureStream_def
      push_event_def Let_def)

lemma append_all_delivers:
  assumes "streamsByChatKey st (chatKey sid cid) = Some s"
    and "fn \<in> listeners s"
    and "append_all apps sid cid st = (es, st')"
  shows "inbox st' fn = inbox st fn @ es \<and>
         map se_id es = [nextId s ..< nextId s + length apps] \<and>
         map se_event es = map (\<lambda>(now, event, data). event) apps \<and>
         map se_data es = map (\<lambda>(now, event, data). data) apps"
  using assms
proof (induction apps arbitrary: st s es st')
  case Nil
  then show ?case by simp
next
  case (Cons a apps)
  obtain now event data where a: "a = (now, event, data)" by (cases a)
  obtain e st1 where ap: "MemoryStore_appendStreamEvent now sid cid event data st = (e, st1)"
    by (cases "MemoryStore_appendStreamEvent now sid cid event data st")
  obtain es1 st2 where rest: "append_all apps sid cid st1 = (es1, st2)"
    by (cases "append_all apps sid cid st1")
  from Cons.prems(3) a ap rest have es: "es = e # es1" and st': "st' = st2"
    by auto
  from store_append_existing [OF Cons.prems(1) ap]
  obtain s1 where s1: "streamsByChatKey st1 (chatKey sid cid) = Some s1"
    and l1: "listeners s1 = listeners s" and n1: "nextId s1 = nextId s + 1"
    and e: "e = \<lparr>se_id = nextId s, se_event = event, se_data = data, se_ts = now\<rparr>"
    and ib: "inbox st1 = (\<lambda>fn. if fn \<in> listeners s then inbox st fn @ [e] else inbox st fn)"
    by blast
  from Cons.prems(2) l1 have "fn \<in> listeners s1" by simp
  from Cons.IH [OF s1 this rest]
  have ih: "inbox st2 fn = inbox st1 fn @ es1"
    "map se_id es1 = [nextId s1 ..< nextId s1 + length apps]"
    "map se_event es1 = map (\<lambda>(now, event, data). event) apps"
    "map se_data es1 = map (\<lambda>(now, event, data). data) apps"
    by auto
  have a1: "map se_id es1 = [Suc (nextId s) ..< Suc (nextId s) + length apps]"
    using ih(2) n1 by simp
  have a2: "Suc (nextId s) + length apps = nextId s + length (a # apps)"
    by simp
  have a3: "nextId s < nextId s + length (a # apps)"
    by simp
  have "map se_id es = nextId s # map se_id es1"
    by (simp add: es e)
  also have "\<dots> = nextId s # [Suc (nextId s) ..< nextId s + length (a # apps)]"
    unfolding a1 a2 ..
  also have "\<dots> = [nextId s ..< nextId s + length (a # apps)]"
    by (rule upt_conv_Cons [symmetric, OF a3])
  finally have ids: "map se_id es = [nextId s ..< nextId s + length (a # apps)]" .
  have "inbox st' fn = inbox st fn @ es"
    using ih(1) ib Cons.prems(2) es st' by simp
  moreover have "map se_event es = map (\<lambda>(now, event, data). event) (a # apps)"
    using ih(3) es e a by simp
  moreover have "map se_data es = map (\<lambda>(now, event, data). data) (a # apps)"
    using ih(4) es e a by simp
  ultimately show ?case using ids by blast
qed

lemma chatKey_inj:
  assumes "CHR '':'' \<notin> set a" and "CHR '':'' \<notin> set a'" and "chatKey a b = chatKey a' b'"
  shows "a = a' \<and> b = b'"
  using assms
proof (induction a arbitrary: a')
  case Nil
  then show ?case by (cases a') (auto simp: chatKey_def)
next
  case (Cons x xs)
  show ?case
  proof (cases a')
    case Nil
    with Cons.prems show ?thesis by (auto simp: chatKey_def)
  next
    case (Cons y ys)
    with Cons.prems have "x = y" and "chatKey xs b = chatKey ys b'"
      and "CHR '':'' \<notin> set xs" and "CHR '':'' \<notin> set ys"
      by (auto simp: chatKey_def)
    with Cons.IH [of ys] Cons show ?thesis by simp
  qed
qed

text \<open>
  Claim C10. \<open>MemoryStore.resetStream\<close> empties the conversation's log, restarts the
  numbering at 1 and sets the status to running, and leaves its subscriber set, every
  listener's past deliveries and the stream of every other key as they were; a listener
  subscribed before the reset is called with each event appended afterwards, in order,
  the first of them carrying id 1. For session ids without a colon (they are generated
  from an alphabet without one) another conversation has another key, so its stream is
  untouched.
\<close>

theorem resetStream_keeps_listeners:
  assumes "streamsByChatKey st (chatKey sid cid) = Some s"
    and "fn \<in> listeners s"
    and "append_all apps sid cid (MemoryStore_resetStream now sid cid st) = (es, st')"
  shows "(\<exists>s'. streamsByChatKey (MemoryStore_resetStream now sid cid st) (chatKey sid cid) = Some s' \<and>
               events s' = [] \<and> nextId s' = 1 \<and> status s' = Running \<and>
               listeners s' = listeners s) \<and>
         (\<forall>k. k \<noteq> chatKey sid cid \<longrightarrow>
               streamsByChatKey (MemoryStore_resetStream now sid cid st) k = streamsByChatKey st k) \<and>
         (\<forall>sid' cid'. CHR '':'' \<notin> set sid \<longrightarrow> CHR '':'' \<notin> set sid' \<longrightarrow> (sid', cid') \<noteq> (sid, cid) \<longrightarrow>
               streamsByChatKey (MemoryStore_resetStream now sid cid st) (chatKey sid' cid')
                 = streamsByChatKey st (chatKey sid' cid')) \<and>
         inbox (MemoryStore_resetStream now sid cid st) = inbox st \<and>
         inbox st' fn = inbox st fn @ es \<and>
         map se_id es = [1 ..< Suc (length apps)] \<and>
         map se_event es = map (\<lambda>(now, event, data). event) apps \<and>
         map se_data es = map (\<lambda>(now, event, data). data) apps"
proof -
  let ?r = "MemoryStore_resetStream now sid cid st"
  have r: "?r = st\<lparr>streamsByChatKey := (streamsByChatKey st)(chatKey sid cid \<mapsto> clear_stream now s)\<rparr>"
    using assms(1) by (simp add: MemoryStore_resetStream_def MemoryStore_ensureStream_def)
  have key: "streamsByChatKey ?r (chatKey sid cid) = Some (clear_stream now s)"
    by (simp add: r)
  have lis: "fn \<in> listeners (clear_stream now s)"
    using assms(2) by (simp add: clear_stream_def)
  from append_all_delivers [OF key lis assms(3)]
  have "inbox st' fn = inbox ?r fn @ es"
    "map se_id es = [1 ..< Suc (length apps)]"
    "map se_event es = map (\<lambda>(now, event, data). event) apps"
    "map se_data es = map (\<lambda>(now, event, data). data) apps"
    by (simp_all add: clear_stream_def)
  moreover have "inbox ?r = inbox st" by (simp add: r)
  moreover have fr: "\<forall>k. k \<noteq> chatKey sid cid \<longrightarrow> streamsByChatKey ?r k = streamsByChatKey st k"
    by (simp add: r)
  moreover have "\<forall>sid' cid'. CHR '':'' \<notin> set sid \<longrightarrow> CHR '':'' \<notin> set sid' \<longrightarrow> (sid', cid') \<noteq> (sid, cid) \<longrightarrow>
               streamsByChatKey ?r (chatKey sid' cid') = streamsByChatKey st (chatKey sid' cid')"
  proof (intro allI impI)
    fix sid' cid'
    assume a: "CHR '':'' \<notin> set sid" "CHR '':'' \<notin> set sid'" "(sid', cid') \<noteq> (sid, cid)"
    from chatKey_inj [OF a(2) a(1)] a(3) have "chatKey sid' cid' \<noteq> chatKey sid cid"
      by auto
    with fr show "streamsByChatKey ?r (chatKey sid' cid') = streamsByChatKey st (chatKey sid' cid')"
      by simp
  qed
  moreover have "\<exists>s'. streamsByChatKey ?r (chatKey sid cid) = Some s' \<and>
               events s' = [] \<and> nextId s' = 1 \<and> status s' = Running \<and>
               listeners s' = listeners s"
    by (simp add: r clear_stream_def)
  ultimately show ?thesis by simp
qed

theorem resetStream_keeps_listeners_witness:
  "streamsByChatKey (store_run [MsSubscribe 0 ''s'' ''c'' 7]) (chatKey ''s'' ''c'')
     = Some \<lparr>status = Idle, nextId = 1, events = [], updatedAt = 0, listeners = {7}\<rparr> \<and>
   (7::nat) \<in> listeners \<lparr>status = Idle, nextId = 1, events = [], updatedAt = 0, listeners = {7}\<rparr> \<and>
   inbox (snd (append_all [(6, ''start'', JNull), (7, ''delta'', JStr ''hi'')] ''s'' ''c''
            (MemoryStore_resetStream 5 ''s'' ''c'' (store_run [MsSubscribe 0 ''s'' ''c'' 7])))) 7
     = inbox (store_run [MsSubscribe 0 ''s'' ''c'' 7]) 7 @
       fst (append_all [(6, ''start'', JNull), (7, ''delta'', JStr ''hi'')] ''s'' ''c''
            (MemoryStore_resetStream 5 ''s'' ''c'' (store_run [MsSubscribe 0 ''s'' ''c'' 7]))) \<and>
   map se_id (fst (append_all [(6, ''start'', JNull), (7, ''delta'', JStr ''hi'')] ''s'' ''c''
            (MemoryStore_resetStream 5 ''s'' ''c'' (store_run [MsSubscribe 0 ''s'' ''c'' 7]))))
     = [1, 2] \<and>
   CHR '':'' \<notin> set ''s'' \<and> (''s'', ''d'') \<noteq> (''s'', ''c'') \<and>
   streamsByChatKey (MemoryStore_resetStream 5 ''s'' ''c'' (store_run [MsSubscribe 0 ''s'' ''c'' 7]))
       (chatKey ''s'' ''d'')
     = streamsByChatKey (store_run [MsSubscribe 0 ''s'' ''c'' 7]) (chatKey ''s'' ''d'')"
proof -
  let ?st = "store_run [MsSubscribe 0 ''s'' ''c'' 7]"
  let ?s = "\<lparr>status = Idle, nextId = 1, events = [], updatedAt = 0, listeners = {7::nat}\<rparr>"
  let ?apps = "[(6::nat, ''start'', JNull), (7, ''delta'', JStr ''hi'')]"
  have h1: "streamsByChatKey ?st (chatKey ''s'' ''c'') = Some ?s"
    by (simp add: store_run_def empty_store_def MemoryStore_subscribeStream_def
        MemoryStore_ensureStream_def Let_def)
  have h2: "(7::nat) \<in> listeners ?s"
    by simp
  have h3: "append_all ?apps ''s'' ''c'' (MemoryStore_resetStream 5 ''s'' ''c'' ?st)
            = (fst (append_all ?apps ''s'' ''c'' (MemoryStore_resetStream 5 ''s'' ''c'' ?st)),
               snd (append_all ?apps ''s'' ''c'' (MemoryStore_resetStream 5 ''s'' ''c'' ?st)))"
    by simp
  have u: "[1 ..< Suc (length ?apps)] = [1, 2]"
    by (simp add: upt_conv_Cons)
  have h4: "CHR '':'' \<notin> set ''s''" and h5: "(''s'', ''d'') \<noteq> (''s'', ''c'')"
    by simp_all
  note main = resetStream_keeps_listeners [OF h1 h2 h3]
  from main have fr: "\<forall>sid' cid'. CHR '':'' \<notin> set ''s'' \<longrightarrow> CHR '':'' \<notin> set sid' \<longrightarrow>
      (sid', cid') \<noteq> (''s'', ''c'') \<longrightarrow>
      streamsByChatKey (MemoryStore_resetStream 5 ''s'' ''c'' ?st) (chatKey sid' cid')
        = streamsByChatKey ?st (chatKey sid' cid')"
    by (elim conjE)
  from fr [rule_format, OF h4 h4 h5]
  have other: "streamsByChatKey (MemoryStore_resetStream 5 ''s'' ''c'' ?st) (chatKey ''s'' ''d'')
         = streamsByChatKey ?st (chatKey ''s'' ''d'')" .
  from main have ib: "inbox (snd (append_all ?apps ''s'' ''c'' (MemoryStore_resetStream 5 ''s'' ''c'' ?st))) 7
      = inbox ?st 7 @ fst (append_all ?apps ''s'' ''c'' (MemoryStore_resetStream 5 ''s'' ''c'' ?st))"
    by (elim conjE)
  from main have ids: "map se_id (fst (append_all ?apps ''s'' ''c'' (MemoryStore_resetStream 5 ''s'' ''c'' ?st)))
      = [1 ..< Suc (length ?apps)]"
    by (elim conjE)
  show ?thesis
    by (intro conjI h1 h2 ib other h4 h5 ids [unfolded u])
qed

section \<open>Properties of the adapter\<close>

subsection \<open>Assistant text\<close>

lemma update_ids_from_fields [simp]:
  "onEvent (update_ids_from toStr cand c) = onEvent c"
  "sawAssistantTextInFlight (update_ids_from toStr cand c) = sawAssistantTextInFlight c"
  by (simp_all add: update_ids_from_def Let_def)

lemma updateIdentifiersFromEvent_fields [simp]:
  "onEvent (updateIdentifiersFromEvent toStr msg c) = onEvent c"
  "sawAssistantTextInFlight (updateIdentifiersFromEvent toStr msg c) = sawAssistantTextInFlight c"
  by (simp_all add: updateIdentifiersFromEvent_def Let_def)

lemma agent_texts_emit_to:
  "onEvent c = Some h \<Longrightarrow> agent_texts (emit_to c (AgentMessage t)) = [t]"
  "agent_texts (emit_to c (Raw m)) = []"
  by (simp_all add: emit_to_def split: option.splits)

lemma isString_iff: "isString v \<longleftrightarrow> (\<exists>t. v = JStr t)"
  by (cases v) auto

lemma codexEvent_throws:
  assumes "codexEvent toStr msg c = Inl err"
  shows "delta_text msg = None" and "fallback_text msg = None"
proof -
  have "nullish msg"
  proof (rule ccontr)
    assume "\<not> nullish msg"
    then obtain u where "extractUsage msg = Inr u"
      by (cases "extractUsage msg") (auto simp: extractUsage_def split: option.splits if_splits)
    then have "\<exists>r. codexEvent toStr msg c = Inr r"
      by (simp add: codexEvent_def Let_def split: option.splits)
    with assms show False by auto
  qed
  then show "delta_text msg = None" and "fallback_text msg = None"
    by (auto simp: nullish_def delta_text_def fallback_text_def)
qed


lemma codexEvent_text:
  assumes ev: "codexEvent toStr msg c = Inr (c1, out)" and h: "onEvent c = Some h"
  shows "onEvent c1 = Some h"
    and "agent_texts out =
           (case delta_text msg of
              Some d \<Rightarrow> [d]
            | None \<Rightarrow> (case fallback_text msg of
                          Some t \<Rightarrow> if sawAssistantTextInFlight c then [] else [t]
                        | None \<Rightarrow> []))"
    and "sawAssistantTextInFlight c1 =
           (sawAssistantTextInFlight c \<or> delta_text msg \<noteq> None \<or>
            (fallback_text msg \<noteq> None))"
proof -
  obtain u where u: "extractUsage msg = Inr u"
    using ev by (cases "extractUsage msg") (auto simp: codexEvent_def Let_def)
  define c2 where "c2 = (case u of Some x \<Rightarrow> (updateIdentifiersFromEvent toStr msg c)\<lparr>lastUsage := Some x\<rparr>
                          | None \<Rightarrow> updateIdentifiersFromEvent toStr msg c)"
  define c3 where "c3 = (case extractRateLimits msg of
                     Some r \<Rightarrow> c2\<lparr>lastRateLimits := Some r\<rparr> | None \<Rightarrow> c2)"
  define ty where "ty = getProp msg ''type''"
  define raw where "raw = (if isObj (getProp msg ''item'')
                           \<and> getProp (getProp msg ''item'') ''role'' = JStr ''assistant''
                           \<and> isArray (getProp (getProp msg ''item'') ''content'')
                        then first_some output_text_of
                               (objectValues (getProp (getProp msg ''item'') ''content''))
                        else None)"
  have f: "onEvent c3 = Some h" "sawAssistantTextInFlight c3 = sawAssistantTextInFlight c"
    using h by (auto simp: c3_def c2_def split: option.splits)
  have e: "\<And>t. agent_texts (emit_to c3 (AgentMessage t)) = [t]"
    "\<And>m. agent_texts (emit_to c3 (Raw m)) = []"
    using f(1) by (simp_all add: agent_texts_emit_to)
  have step: "codexEvent toStr msg c =
    (if isObj msg \<and> ty = JStr ''agent_message_delta'' \<and> isString (getProp msg ''delta'')
     then Inr (c3\<lparr>sawAssistantTextInFlight := True\<rparr>,
               emit_to c3 (AgentMessage (js_String toStr (getProp msg ''delta''))))
     else if isObj msg \<and> ty = JStr ''agent_message_content_delta'' \<and> isString (getProp msg ''delta'')
     then Inr (c3, [])
     else if isObj msg \<and> ty = JStr ''agent_message''
             \<and> isString (getProp msg ''message'') \<and> \<not> sawAssistantTextInFlight c
     then Inr (c3\<lparr>sawAssistantTextInFlight := True\<rparr>,
               emit_to c3 (AgentMessage (js_String toStr (getProp msg ''message''))))
     else case (if isObj msg \<and> ty = JStr ''raw_response_item'' \<and> \<not> sawAssistantTextInFlight c
                then raw else None) of
            Some t \<Rightarrow> Inr (c3\<lparr>sawAssistantTextInFlight := True\<rparr>, emit_to c3 (AgentMessage t))
          | None \<Rightarrow> Inr (c3, emit_to c3 (Raw msg)))"
    unfolding codexEvent_def Let_def u c3_def [symmetric] c2_def [symmetric] ty_def raw_def
    by (simp add: c2_def c3_def f [unfolded c3_def c2_def] cong: if_cong option.case_cong)
  have dt: "delta_text msg =
      (if isObj msg \<and> ty = JStr ''agent_message_delta'' \<and> isString (getProp msg ''delta'')
       then Some (js_String toStr (getProp msg ''delta'')) else None)"
    by (cases "getProp msg ''delta''") (simp_all add: delta_text_def ty_def)
  have ft: "fallback_text msg =
      (if isObj msg \<and> ty = JStr ''agent_message''
       then (if isString (getProp msg ''message'')
             then Some (js_String toStr (getProp msg ''message'')) else None)
       else if isObj msg \<and> ty = JStr ''raw_response_item'' then raw else None)"
    by (cases "getProp msg ''message''") (simp_all add: fallback_text_def ty_def raw_def)
  have ne: "JStr ''agent_message'' \<noteq> JStr ''agent_message_delta''"
    "JStr ''agent_message'' \<noteq> JStr ''agent_message_content_delta''"
    "JStr ''agent_message'' \<noteq> JStr ''raw_response_item''"
    "JStr ''raw_response_item'' \<noteq> JStr ''agent_message_delta''"
    "JStr ''raw_response_item'' \<noteq> JStr ''agent_message_content_delta''"
    "JStr ''agent_message_delta'' \<noteq> JStr ''agent_message_content_delta''"
    by simp_all
  consider (delta) "isObj msg" "ty = JStr ''agent_message_delta''" "isString (getProp msg ''delta'')"
    | (cdelta) "isObj msg" "ty = JStr ''agent_message_content_delta''" "isString (getProp msg ''delta'')"
    | (full) "isObj msg" "ty = JStr ''agent_message''"
    | (rawitem) "isObj msg" "ty = JStr ''raw_response_item''"
    | (other) "\<not> (isObj msg \<and> ty = JStr ''agent_message_delta'' \<and> isString (getProp msg ''delta''))"
        "\<not> (isObj msg \<and> ty = JStr ''agent_message_content_delta'' \<and> isString (getProp msg ''delta''))"
        "\<not> (isObj msg \<and> ty = JStr ''agent_message'')"
        "\<not> (isObj msg \<and> ty = JStr ''raw_response_item'')"
    by blast
  then have all: "onEvent c1 = Some h \<and>
     agent_texts out =
           (case delta_text msg of
              Some d \<Rightarrow> [d]
            | None \<Rightarrow> (case fallback_text msg of
                          Some t \<Rightarrow> if sawAssistantTextInFlight c then [] else [t]
                        | None \<Rightarrow> [])) \<and>
     sawAssistantTextInFlight c1 =
           (sawAssistantTextInFlight c \<or> delta_text msg \<noteq> None \<or>
            (fallback_text msg \<noteq> None))"
  proof cases
    case delta
    with ev [unfolded step] f e show ?thesis
      by (auto simp: dt ft ne)
  next
    case cdelta
    with ev [unfolded step] f e ne show ?thesis
      by (auto simp: dt ft)
  next
    case full
    with ev [unfolded step] f e ne show ?thesis
      by (auto simp: dt ft split: if_splits)
  next
    case rawitem
    with ev [unfolded step] f e ne show ?thesis
      by (cases raw) (auto simp: dt ft split: if_splits)
  next
    case other
    with ev [unfolded step] f e show ?thesis
      by (auto simp: dt ft)
  qed
  from all show "onEvent c1 = Some h" by simp
  from all show "agent_texts out =
           (case delta_text msg of
              Some d \<Rightarrow> [d]
            | None \<Rightarrow> (case fallback_text msg of
                          Some t \<Rightarrow> if sawAssistantTextInFlight c then [] else [t]
                        | None \<Rightarrow> []))" by simp
  from all show "sawAssistantTextInFlight c1 =
           (sawAssistantTextInFlight c \<or> delta_text msg \<noteq> None \<or>
            (fallback_text msg \<noteq> None))" by simp
qed


lemma agent_texts_append: "agent_texts (xs @ ys) = agent_texts xs @ agent_texts ys"
  by (induction xs rule: agent_texts.induct) simp_all

lemma codexEvents_texts:
  assumes "onEvent c = Some h"
  shows "agent_texts (snd (codexEvents toStr msgs c)) =
         (if sawAssistantTextInFlight c then [] else leading_fallback msgs) @
         List.map_filter delta_text msgs"
  using assms
proof (induction msgs arbitrary: c)
  case Nil
  show ?case by (simp add: List.map_filter_simps)
next
  case (Cons msg msgs)
  show ?case
  proof (cases "codexEvent toStr msg c")
    case (Inl err)
    from codexEvent_throws [OF Inl] Cons.IH [OF Cons.prems] Inl show ?thesis
      by (simp add: List.map_filter_simps)
  next
    case (Inr r)
    obtain c1 out1 where r: "r = (c1, out1)" by (cases r)
    note t = codexEvent_text [OF Inr [unfolded r] Cons.prems]
    obtain c2 out2 where rest: "codexEvents toStr msgs c1 = (c2, out2)"
      by (cases "codexEvents toStr msgs c1")
    from Cons.IH [OF t(1)] rest
    have ih: "agent_texts out2 =
         (if sawAssistantTextInFlight c1 then [] else leading_fallback msgs) @
         List.map_filter delta_text msgs"
      by simp
    have "agent_texts (snd (codexEvents toStr (msg # msgs) c)) = agent_texts out1 @ agent_texts out2"
      using Inr r rest by (simp add: agent_texts_append)
    with t(2,3) ih show ?thesis
      by (auto simp: List.map_filter_simps split: option.splits)
  qed
qed

lemma content_delta_is_silent:
  "content_delta_text msg = Some t \<Longrightarrow> delta_text msg = None \<and> fallback_text msg = None"
  by (auto simp: content_delta_text_def delta_text_def fallback_text_def split: if_splits)

lemma leading_fallback_after_delta:
  assumes "delta_text d \<noteq> None" and "\<forall>m\<in>set pre. fallback_text m = None"
  shows "leading_fallback (pre @ d # post) = []"
  using assms by (induction pre) (auto split: option.splits)

lemma leading_fallback_short: "length (leading_fallback msgs) \<le> 1"
  by (induction msgs) (auto split: option.splits)

text \<open>
  Claim C1, as amended. After \<open>startSession\<close> or \<open>continueSession\<close> has reset the flag, the
  \<open>agent_message\<close> texts which the notifications of the turn produce are the text of every
  \<open>agent_message_delta\<close>, in order, preceded by at most one text from the full-message or
  raw-content-block channel: the first such notification, and only when no delta comes
  before it. An \<open>agent_message_content_delta\<close> adds nothing. So when a delta precedes every
  full message and content block, the text is the concatenation of the deltas, once.
\<close>

theorem agent_text_is_leading_fallback_then_deltas:
  assumes "onEvent c = Some h"
    and "c0 = startSession_begin c \<or> continueSession_begin c = Inr c0"
  shows "agent_texts (snd (codexEvents toStr msgs c0))
           = leading_fallback msgs @ List.map_filter delta_text msgs \<and>
         length (leading_fallback msgs) \<le> 1 \<and>
         (\<forall>m\<in>set msgs. content_delta_text m \<noteq> None \<longrightarrow>
              delta_text m = None \<and> fallback_text m = None) \<and>
         ((\<exists>pre d post. msgs = pre @ d # post \<and> delta_text d \<noteq> None \<and>
              (\<forall>m\<in>set pre. fallback_text m = None)) \<longrightarrow>
            concat (agent_texts (snd (codexEvents toStr msgs c0)))
              = concat (List.map_filter delta_text msgs))"
proof -
  from assms have c0: "onEvent c0 = Some h" "\<not> sawAssistantTextInFlight c0"
    by (auto simp: startSession_begin_def continueSession_begin_def
        split: option.splits if_splits)
  from codexEvents_texts [OF c0(1), of toStr msgs] c0(2)
  have main: "agent_texts (snd (codexEvents toStr msgs c0))
           = leading_fallback msgs @ List.map_filter delta_text msgs"
    by simp
  have silent: "\<forall>m\<in>set msgs. content_delta_text m \<noteq> None \<longrightarrow>
              delta_text m = None \<and> fallback_text m = None"
    using content_delta_is_silent by blast
  have "(\<exists>pre d post. msgs = pre @ d # post \<and> delta_text d \<noteq> None \<and>
              (\<forall>m\<in>set pre. fallback_text m = None)) \<longrightarrow> leading_fallback msgs = []"
    using leading_fallback_after_delta by blast
  with main have "(\<exists>pre d post. msgs = pre @ d # post \<and> delta_text d \<noteq> None \<and>
              (\<forall>m\<in>set pre. fallback_text m = None)) \<longrightarrow>
            concat (agent_texts (snd (codexEvents toStr msgs c0)))
              = concat (List.map_filter delta_text msgs)"
    by simp
  with main silent leading_fallback_short show ?thesis by blast
qed

theorem agent_text_is_leading_fallback_then_deltas_witness:
  "onEvent ((new_client Codex)\<lparr>onEvent := Some 0\<rparr>) = Some 0 \<and>
   concat (agent_texts (snd (codexEvents (\<lambda>v. [])
       [JObj [(''type'', JStr ''agent_message_delta''), (''delta'', JStr ''Hello'')],
        JObj [(''type'', JStr ''agent_message_content_delta''), (''delta'', JStr ''Hello'')],
        JObj [(''type'', JStr ''agent_message_delta''), (''delta'', JStr '' world'')],
        JObj [(''type'', JStr ''agent_message''), (''message'', JStr ''Hello world'')]]
       (startSession_begin ((new_client Codex)\<lparr>onEvent := Some 0\<rparr>)))))
     = ''Hello world''"
proof -
  let ?c = "(new_client Codex)\<lparr>onEvent := Some 0\<rparr>"
  let ?d1 = "JObj [(''type'', JStr ''agent_message_delta''), (''delta'', JStr ''Hello'')]"
  let ?rest = "[JObj [(''type'', JStr ''agent_message_content_delta''), (''delta'', JStr ''Hello'')],
        JObj [(''type'', JStr ''agent_message_delta''), (''delta'', JStr '' world'')],
        JObj [(''type'', JStr ''agent_message''), (''message'', JStr ''Hello world'')]]"
  have h1: "onEvent ?c = Some 0" by simp
  have h2: "startSession_begin ?c = startSession_begin ?c \<or>
            continueSession_begin ?c = Inr (startSession_begin ?c)" by simp
  have d: "delta_text ?d1 \<noteq> None" by (simp add: delta_text_def)
  have ex: "\<exists>pre d post. ?d1 # ?rest = pre @ d # post \<and> delta_text d \<noteq> None \<and>
              (\<forall>m\<in>set pre. fallback_text m = None)"
    using d by (intro exI [of _ "[]"] exI [of _ ?d1] exI [of _ ?rest]) simp
  have deltas: "concat (List.map_filter delta_text (?d1 # ?rest)) = ''Hello world''"
    by code_simp
  from agent_text_is_leading_fallback_then_deltas [OF h1 h2, of "\<lambda>v. []" "?d1 # ?rest"] ex
  have "concat (agent_texts (snd (codexEvents (\<lambda>v. []) (?d1 # ?rest) (startSession_begin ?c))))
          = concat (List.map_filter delta_text (?d1 # ?rest))"
    by blast
  with deltas h1 show ?thesis by simp
qed

text \<open>
  Claim C1 as stated fails when a content block (or a full message) comes before the
  deltas: both are forwarded, and the text is there twice.
\<close>

theorem agent_text_twice_counterexample:
  "concat (agent_texts (snd (codexEvents (\<lambda>v. [])
       [JObj [(''type'', JStr ''raw_response_item''),
              (''item'', JObj [(''role'', JStr ''assistant''),
                               (''content'', JArr [JObj [(''type'', JStr ''output_text''),
                                                          (''text'', JStr ''Hello world'')]])])],
        JObj [(''type'', JStr ''agent_message_delta''), (''delta'', JStr ''Hello'')],
        JObj [(''type'', JStr ''agent_message_delta''), (''delta'', JStr '' world'')]]
       (startSession_begin ((new_client Codex)\<lparr>onEvent := Some 0\<rparr>)))))
     = ''Hello worldHello world'' \<and>
   concat (List.map_filter delta_text
       [JObj [(''type'', JStr ''raw_response_item''),
              (''item'', JObj [(''role'', JStr ''assistant''),
                               (''content'', JArr [JObj [(''type'', JStr ''output_text''),
                                                          (''text'', JStr ''Hello world'')]])])],
        JObj [(''type'', JStr ''agent_message_delta''), (''delta'', JStr ''Hello'')],
        JObj [(''type'', JStr ''agent_message_delta''), (''delta'', JStr '' world'')]])
     = ''Hello world'' \<and>
   ''Hello worldHello world'' \<noteq> ''Hello world''"
  by code_simp

subsection \<open>Approvals\<close>

lemma map_of_delete_self: "map_of (AList.delete k xs) k = None"
  by (simp add: AList.delete_eq map_of_eq_None_iff image_iff)

lemma keys_nonempty_lookup:
  "\<forall>k\<in>set (map fst xs). k \<noteq> [] \<Longrightarrow> map_of xs [] = None"
  by (auto simp: map_of_eq_None_iff)

lemma length_delete_present:
  "distinct (map fst xs) \<Longrightarrow> map_of xs k = Some r \<Longrightarrow> length (AList.delete k xs) = length xs - 1"
proof (induction xs)
  case Nil
  then show ?case by simp
next
  case (Cons a xs)
  obtain k' v where a: "a = (k', v)" by (cases a)
  show ?case
  proof (cases "k' = k")
    case True
    with Cons.prems a have "k \<notin> fst ` set xs" by auto
    then have "AList.delete k xs = xs"
      by (induction xs) (auto simp: AList.delete_eq)
    with True a show ?thesis by (simp add: AList.delete_eq)
  next
    case False
    with Cons a have "length (AList.delete k xs) = length xs - 1" and "map_of xs k = Some r"
      by auto
    moreover from this(2) have "xs \<noteq> []" by auto
    ultimately show ?thesis using False a
      by (cases xs) (auto simp: AList.delete_eq)
  qed
qed

text \<open>
  Claim C8. With the pending map as the request handler builds it (distinct, non-empty
  keys): \<open>approve\<close> calls the resolver stored under exactly the given id and removes that
  entry; when the id matches nothing and exactly one approval is pending it calls and
  removes that one; otherwise it returns false and changes nothing. The decision reaches
  the backend as accept for \<open>approved\<close> and \<open>approved_for_session\<close>, decline for
  \<open>denied\<close>, cancel for \<open>abort\<close> and anything else. After an exact match the id is gone,
  so approving it again returns false unless exactly one other approval is pending.
\<close>

theorem approve_resolves_pending:
  assumes "distinct (map fst (pendingApprovals c))"
    and "\<forall>k\<in>set (map fst (pendingApprovals c)). k \<noteq> []"
  shows "(\<forall>r. map_of (pendingApprovals c) ident = Some r \<longrightarrow>
            approve ident decision c =
              (True, c\<lparr>pendingApprovals := AList.delete ident (pendingApprovals c)\<rparr>,
               [Resolve r decision]) \<and>
            map_of (AList.delete ident (pendingApprovals c)) ident = None \<and>
            (length (pendingApprovals c) \<noteq> 2 \<longrightarrow>
               approve ident decision'
                 (c\<lparr>pendingApprovals := AList.delete ident (pendingApprovals c)\<rparr>) =
               (False, c\<lparr>pendingApprovals := AList.delete ident (pendingApprovals c)\<rparr>, []))) \<and>
         (\<forall>k r. map_of (pendingApprovals c) ident = None \<and> pendingApprovals c = [(k, r)] \<longrightarrow>
            approve ident decision c = (True, c\<lparr>pendingApprovals := []\<rparr>, [Resolve r decision])) \<and>
         (map_of (pendingApprovals c) ident = None \<and> length (pendingApprovals c) \<noteq> 1 \<longrightarrow>
            approve ident decision c = (False, c, [])) \<and>
         toElicitResponse ''approved'' = Accept \<and>
         toElicitResponse ''approved_for_session'' = Accept \<and>
         toElicitResponse ''denied'' = Decline \<and>
         toElicitResponse ''abort'' = Cancel \<and>
         (decision \<noteq> ''approved'' \<and> decision \<noteq> ''approved_for_session'' \<and> decision \<noteq> ''denied''
            \<longrightarrow> toElicitResponse decision = Cancel)"
proof -
  have exact: "approve ident decision c =
              (True, c\<lparr>pendingApprovals := AList.delete ident (pendingApprovals c)\<rparr>,
               [Resolve r decision])" if r: "map_of (pendingApprovals c) ident = Some r" for r
  proof -
    from r keys_nonempty_lookup [OF assms(2)] have "ident \<noteq> []" by auto
    with r show ?thesis by (simp add: approve_def)
  qed
  have again: "approve ident decision'
                 (c\<lparr>pendingApprovals := AList.delete ident (pendingApprovals c)\<rparr>) =
               (False, c\<lparr>pendingApprovals := AList.delete ident (pendingApprovals c)\<rparr>, [])"
    if r: "map_of (pendingApprovals c) ident = Some r" and n: "length (pendingApprovals c) \<noteq> 2" for r
  proof -
    from length_delete_present [OF assms(1) r] n
    have "length (AList.delete ident (pendingApprovals c)) \<noteq> 1" by auto
    then have "\<And>k v. AList.delete ident (pendingApprovals c) \<noteq> [(k, v)]" by auto
    then show ?thesis
      by (auto simp: approve_def map_of_delete_self split: list.splits)
  qed
  have single: "approve ident decision c = (True, c\<lparr>pendingApprovals := []\<rparr>, [Resolve r decision])"
    if "map_of (pendingApprovals c) ident = None" "pendingApprovals c = [(k, r)]" for k r
  proof -
    from that(2) assms(2) have "k \<noteq> []" by simp
    with that show ?thesis by (simp add: approve_def AList.delete_eq)
  qed
  have none: "approve ident decision c = (False, c, [])"
    if "map_of (pendingApprovals c) ident = None" "length (pendingApprovals c) \<noteq> 1"
    using that by (auto simp: approve_def split: list.splits)
  have resp: "toElicitResponse ''approved'' = Accept"
    "toElicitResponse ''approved_for_session'' = Accept"
    "toElicitResponse ''denied'' = Decline"
    "toElicitResponse ''abort'' = Cancel"
    "decision \<noteq> ''approved'' \<and> decision \<noteq> ''approved_for_session'' \<and> decision \<noteq> ''denied''
            \<longrightarrow> toElicitResponse decision = Cancel"
    by (simp_all add: toElicitResponse_def)
  note gone = map_of_delete_self [of ident "pendingApprovals c"]
  from exact again single none resp gone show ?thesis
    by blast
qed

text \<open>The request handler keeps the keys of the pending map distinct and non-empty.\<close>

lemma elicitRequest_keys:
  assumes "distinct (map fst (pendingApprovals c))"
    and "\<forall>k\<in>set (map fst (pendingApprovals c)). k \<noteq> []"
    and "elicitRequest toStr now p c = (res, c', effs)"
  shows "distinct (map fst (pendingApprovals c'))"
    and "\<forall>k\<in>set (map fst (pendingApprovals c')). k \<noteq> []"
proof -
  define approvalId where "approvalId = js_String toStr
            (first_truthy [getProp p ''codex_call_id'', getProp p ''codex_mcp_tool_call_id'',
                           getProp p ''codex_event_id'', JStr []])"
  define ident where "ident = (if approvalId \<noteq> [] then approvalId
                               else fst (nextApprovalId toStr now c))"
  define c1 where "c1 = (if approvalId \<noteq> [] then c else snd (nextApprovalId toStr now c))"
  have p1: "pendingApprovals c1 = pendingApprovals c"
    by (simp add: c1_def nextApprovalId_def Let_def)
  have ne: "ident \<noteq> []"
    by (simp add: ident_def nextApprovalId_def Let_def)
  have c': "pendingApprovals c' = AList.update ident (resolverSeq c1) (pendingApprovals c)"
  proof (cases "approvalId = []")
    case True
    with assms(3) [unfolded elicitRequest_def approvalId_def [symmetric]] show ?thesis
      by (auto simp: Let_def ident_def c1_def nextApprovalId_def split: prod.splits)
  next
    case False
    with assms(3) [unfolded elicitRequest_def approvalId_def [symmetric]] show ?thesis
      by (auto simp: Let_def ident_def c1_def split: prod.splits)
  qed
  from assms(1) show "distinct (map fst (pendingApprovals c'))"
    by (simp add: c' distinct_update)
  have "fst ` set (AList.update ident (resolverSeq c1) (pendingApprovals c))
          = insert ident (fst ` set (pendingApprovals c))"
    using dom_update [of ident "resolverSeq c1" "pendingApprovals c"]
    by (simp add: dom_map_of_conv_image_fst)
  with assms(2) ne show "\<forall>k\<in>set (map fst (pendingApprovals c')). k \<noteq> []"
    by (auto simp: c')
qed

theorem approve_resolves_pending_witness:
  "distinct (map fst [(''call-1'', 0::nat), (''call-2'', 1), (''call-3'', 2)]) \<and>
   ''call-1'' \<noteq> [] \<and> ''call-2'' \<noteq> [] \<and> ''call-3'' \<noteq> [] \<and>
   approve ''call-1'' ''approved''
     ((new_client Codex)\<lparr>pendingApprovals := [(''call-1'', 0), (''call-2'', 1), (''call-3'', 2)]\<rparr>)
     = (True, (new_client Codex)\<lparr>pendingApprovals := [(''call-2'', 1), (''call-3'', 2)]\<rparr>,
        [Resolve 0 ''approved'']) \<and>
   approve ''call-1'' ''denied''
     ((new_client Codex)\<lparr>pendingApprovals := [(''call-2'', 1), (''call-3'', 2)]\<rparr>)
     = (False, (new_client Codex)\<lparr>pendingApprovals := [(''call-2'', 1), (''call-3'', 2)]\<rparr>, []) \<and>
   toElicitResponse ''approved'' = Accept"
proof -
  let ?c = "(new_client Codex)\<lparr>pendingApprovals := [(''call-1'', 0), (''call-2'', 1), (''call-3'', 2)]\<rparr>"
  have h1: "distinct (map fst (pendingApprovals ?c))" by simp
  have h2: "\<forall>k\<in>set (map fst (pendingApprovals ?c)). k \<noteq> []" by simp
  have l: "map_of (pendingApprovals ?c) ''call-1'' = Some 0" by simp
  have n: "length (pendingApprovals ?c) \<noteq> 2" by simp
  have d: "AList.delete ''call-1'' (pendingApprovals ?c) = [(''call-2'', 1), (''call-3'', 2)]"
    by (simp add: AList.delete_eq)
  from approve_resolves_pending [OF h1 h2, of "''call-1''" "''approved''" "''denied''"] l n
  have "approve ''call-1'' ''approved'' ?c =
          (True, ?c\<lparr>pendingApprovals := AList.delete ''call-1'' (pendingApprovals ?c)\<rparr>,
           [Resolve 0 ''approved''])"
    and "approve ''call-1'' ''denied''
           (?c\<lparr>pendingApprovals := AList.delete ''call-1'' (pendingApprovals ?c)\<rparr>) =
         (False, ?c\<lparr>pendingApprovals := AList.delete ''call-1'' (pendingApprovals ?c)\<rparr>, [])"
    and "toElicitResponse ''approved'' = Accept"
    by blast+
  with d h1 h2 show ?thesis by simp
qed

section \<open>Properties of the turn runner\<close>

subsection \<open>Abort\<close>

lemma signals_of_append: "signals_of (xs @ ys) = signals_of xs @ signals_of ys"
  by (induction xs rule: signals_of.induct) simp_all

lemma answers_of_append: "answers_of (xs @ ys) = answers_of xs @ answers_of ys"
  by (induction xs rule: answers_of.induct) simp_all

lemma seen_resolves:
  "signals_of (map (\<lambda>p. Resolve (snd p) d) ps) = []"
  "answers_of (map (\<lambda>p. Resolve (snd p) d) ps) = map (\<lambda>p. Answer (snd p) (toElicitResponse d)) ps"
  by (induction ps) simp_all

lemma answers_teardown: "list_all is_teardown es \<Longrightarrow> answers_of es = []"
  by (induction es rule: answers_of.induct) simp_all

text \<open>
  Claim C4, as amended. \<open>CodexManager.abort\<close> on a conversation whose runner is registered
  and busy calls the resolver of every pending approval with \<open>abort\<close>, in the order of the
  pending map, empties the map, and only then signals teardown (SIGTERM and the kill timer
  of a live child process, \<open>AbortController.abort\<close>). These are the synchronous calls. A
  resolver only settles the promise its request handler awaits: the handler resumes, and
  answers the agent with \<open>cancel\<close>, after \<open>abort()\<close> has returned, so the agent is signalled
  first and answered afterwards. When no runner is registered for the conversation, or it
  is idle, \<open>abort\<close> answers not running and resolves nothing; this is also the case after
  \<open>reset\<close>, which drops the runner from the map and leaves the object, with its pending
  approvals, to the turn in flight.
\<close>

theorem abort_calls_resolvers_then_signals:
  "(\<forall>i r. lookup_runner mgr (chatKey sid cid) = Some (i, r) \<and> busy r \<longrightarrow>
      (\<exists>c' a tear.
         CodexManager_abort sid cid mgr =
           (AbortOk, set_runner i (r\<lparr>client := c', abort := a\<rparr>) mgr,
            map (\<lambda>p. Resolve (snd p) ''abort'') (pendingApprovals (client r)) @ tear) \<and>
         pendingApprovals c' = [] \<and>
         list_all is_teardown tear \<and>
         (abort r = Some False \<longrightarrow> AbortSignal \<in> set tear) \<and>
         (\<forall>proc. activeClaudeProc (client r) = Some proc \<and> \<not> cp_exited proc \<and> \<not> cp_killed proc
              \<longrightarrow> SigTerm \<in> set tear) \<and>
         seen_by_agent (snd (snd (CodexManager_abort sid cid mgr))) =
           signals_of tear @ map (\<lambda>p. Answer (snd p) Cancel) (pendingApprovals (client r)))) \<and>
   (lookup_runner mgr (chatKey sid cid) = None \<or>
    (\<exists>i r. lookup_runner mgr (chatKey sid cid) = Some (i, r) \<and> \<not> busy r) \<longrightarrow>
      CodexManager_abort sid cid mgr = (NotRunning, mgr, [])) \<and>
   CodexManager_abort sid cid (CodexManager_reset sid cid mgr) =
     (NotRunning, CodexManager_reset sid cid mgr, []) \<and>
   objects (CodexManager_reset sid cid mgr) = objects mgr"
proof -
  have running: "\<exists>c' a tear.
         CodexManager_abort sid cid mgr =
           (AbortOk, set_runner i (r\<lparr>client := c', abort := a\<rparr>) mgr,
            map (\<lambda>p. Resolve (snd p) ''abort'') (pendingApprovals (client r)) @ tear) \<and>
         pendingApprovals c' = [] \<and>
         list_all is_teardown tear \<and>
         (abort r = Some False \<longrightarrow> AbortSignal \<in> set tear) \<and>
         (\<forall>proc. activeClaudeProc (client r) = Some proc \<and> \<not> cp_exited proc \<and> \<not> cp_killed proc
              \<longrightarrow> SigTerm \<in> set tear) \<and>
         seen_by_agent (snd (snd (CodexManager_abort sid cid mgr))) =
           signals_of tear @ map (\<lambda>p. Answer (snd p) Cancel) (pendingApprovals (client r))"
    if l: "lookup_runner mgr (chatKey sid cid) = Some (i, r)" and b: "busy r" for i r
  proof -
    obtain c1 stop where st:
      "stopActiveClaudeProcess ((client r)\<lparr>pendingApprovals := []\<rparr>) = (c1, stop)"
      by (cases "stopActiveClaudeProcess ((client r)\<lparr>pendingApprovals := []\<rparr>)")
    obtain a sig where fa: "fire_abort (abort r) = (a, sig)"
      by (cases "fire_abort (abort r)")
    from st have s1: "pendingApprovals c1 = []" "list_all is_teardown stop"
      "\<forall>proc. activeClaudeProc (client r) = Some proc \<and> \<not> cp_exited proc \<and> \<not> cp_killed proc
                \<longrightarrow> SigTerm \<in> set stop"
      by (auto simp: stopActiveClaudeProcess_def split: option.splits if_splits)
    from fa have s2: "list_all is_teardown sig" "abort r = Some False \<longrightarrow> AbortSignal \<in> set sig"
      by (auto simp: fire_abort_def split: option.splits bool.splits)
    have run: "CodexManager_abort sid cid mgr =
          (AbortOk, set_runner i (r\<lparr>client := c1, abort := a\<rparr>) mgr,
           map (\<lambda>p. Resolve (snd p) ''abort'') (pendingApprovals (client r)) @ (stop @ sig))"
      using l b st fa
      by (simp add: CodexManager_abort_def abortPendingApprovals_def Let_def comp_def)
    have td: "list_all is_teardown (stop @ sig)" using s1(2) s2(1) by simp
    have "seen_by_agent (snd (snd (CodexManager_abort sid cid mgr))) =
           signals_of (stop @ sig) @ map (\<lambda>p. Answer (snd p) Cancel) (pendingApprovals (client r))"
      using answers_teardown [OF td]
      by (simp add: run seen_by_agent_def signals_of_append answers_of_append seen_resolves
          toElicitResponse_def del: append_assoc)
    with run s1 s2 td show ?thesis
      by (intro exI [of _ c1] exI [of _ a] exI [of _ "stop @ sig"]) auto
  qed
  have idle: "CodexManager_abort sid cid mgr = (NotRunning, mgr, [])"
    if "lookup_runner mgr (chatKey sid cid) = None \<or>
        (\<exists>i r. lookup_runner mgr (chatKey sid cid) = Some (i, r) \<and> \<not> busy r)"
    using that by (auto simp: CodexManager_abort_def)
  have dropped: "CodexManager_abort sid cid (CodexManager_reset sid cid mgr) =
     (NotRunning, CodexManager_reset sid cid mgr, [])"
    by (simp add: CodexManager_abort_def CodexManager_reset_def lookup_runner_def)
  have kept: "objects (CodexManager_reset sid cid mgr) = objects mgr"
    by (simp add: CodexManager_reset_def)
  from running idle dropped kept show ?thesis by blast
qed

theorem abort_calls_resolvers_then_signals_witness:
  "lookup_runner (example_manager True) (chatKey ''s'' ''c'') = Some (0, example_runner True) \<and>
   busy (example_runner True) \<and>
   abort (example_runner True) = Some False \<and>
   pendingApprovals (client (example_runner True)) = [(''a'', 0), (''b'', 1)] \<and>
   (\<exists>c' a tear.
      CodexManager_abort ''s'' ''c'' (example_manager True) =
        (AbortOk, set_runner 0 ((example_runner True)\<lparr>client := c', abort := a\<rparr>) (example_manager True),
         [Resolve 0 ''abort'', Resolve 1 ''abort''] @ tear) \<and>
      pendingApprovals c' = [] \<and> list_all is_teardown tear \<and> AbortSignal \<in> set tear \<and>
      seen_by_agent (snd (snd (CodexManager_abort ''s'' ''c'' (example_manager True)))) =
        signals_of tear @ [Answer 0 Cancel, Answer 1 Cancel]) \<and>
   lookup_runner (example_manager False) (chatKey ''s'' ''c'') = Some (0, example_runner False) \<and>
   \<not> busy (example_runner False) \<and>
   CodexManager_abort ''s'' ''c'' (example_manager False) = (NotRunning, example_manager False, [])"
proof -
  have l: "lookup_runner (example_manager b) (chatKey ''s'' ''c'') = Some (0, example_runner b)" for b
    by (simp add: lookup_runner_def example_manager_def)
  have b: "busy (example_runner True)" "\<not> busy (example_runner False)"
    "abort (example_runner True) = Some False"
    "pendingApprovals (client (example_runner True)) = [(''a'', 0), (''b'', 1)]"
    by (simp_all add: example_runner_def)
  note run = abort_calls_resolvers_then_signals [of "example_manager True" "''s''" "''c''"]
  note idle = abort_calls_resolvers_then_signals [of "example_manager False" "''s''" "''c''"]
  from run l [of True] b(1) obtain c' a tear where r:
    "CodexManager_abort ''s'' ''c'' (example_manager True) =
       (AbortOk, set_runner 0 ((example_runner True)\<lparr>client := c', abort := a\<rparr>) (example_manager True),
        map (\<lambda>p. Resolve (snd p) ''abort'') (pendingApprovals (client (example_runner True))) @ tear)"
    "pendingApprovals c' = []" "list_all is_teardown tear"
    "abort (example_runner True) = Some False \<longrightarrow> AbortSignal \<in> set tear"
    "seen_by_agent (snd (snd (CodexManager_abort ''s'' ''c'' (example_manager True)))) =
       signals_of tear @ map (\<lambda>p. Answer (snd p) Cancel) (pendingApprovals (client (example_runner True)))"
    by blast
  from idle l [of False] b(2)
  have i: "CodexManager_abort ''s'' ''c'' (example_manager False) = (NotRunning, example_manager False, [])"
    by blast
  from r b(3) have sig: "AbortSignal \<in> set tear" by blast
  have "\<exists>c' a tear.
      CodexManager_abort ''s'' ''c'' (example_manager True) =
        (AbortOk, set_runner 0 ((example_runner True)\<lparr>client := c', abort := a\<rparr>) (example_manager True),
         [Resolve 0 ''abort'', Resolve 1 ''abort''] @ tear) \<and>
      pendingApprovals c' = [] \<and> list_all is_teardown tear \<and> AbortSignal \<in> set tear \<and>
      seen_by_agent (snd (snd (CodexManager_abort ''s'' ''c'' (example_manager True)))) =
        signals_of tear @ [Answer 0 Cancel, Answer 1 Cancel]"
    apply (rule exI [of _ c'], rule exI [of _ a], rule exI [of _ tear])
    using r(1,2,3,5) sig by (simp only: b(4)) simp
  with l b i show ?thesis by blast
qed

text \<open>
  Claim C4 as stated fails in both respects. With two approvals pending, the agent of a
  busy runner sees the abort signal before either answer; and after \<open>reset\<close> the same
  runner object is still busy with both approvals pending, and \<open>abort\<close> reaches none of
  them.
\<close>

theorem abort_answers_after_signal_counterexample:
  "seen_by_agent (snd (snd (CodexManager_abort ''s'' ''c'' (example_manager True))))
     = [Signal AbortSignal, Answer 0 Cancel, Answer 1 Cancel] \<and>
   CodexManager_abort ''s'' ''c'' (CodexManager_reset ''s'' ''c'' (example_manager True))
     = (NotRunning, CodexManager_reset ''s'' ''c'' (example_manager True), []) \<and>
   map_option (\<lambda>r. (busy r, pendingApprovals (client r)))
       (objects (CodexManager_reset ''s'' ''c'' (example_manager True)) 0)
     = Some (True, [(''a'', 0), (''b'', 1)])"
  by (simp add: CodexManager_abort_def CodexManager_reset_def example_manager_def
      example_runner_def lookup_runner_def chatKey_def abortPendingApprovals_def
      stopActiveClaudeProcess_def new_client_def fire_abort_def seen_by_agent_def
      toElicitResponse_def Let_def)

subsection \<open>The busy guard\<close>





subsection \<open>Restarting the agent session\<close>

lemma progress_stages_append: "progress_stages (xs @ ys) = progress_stages xs @ progress_stages ys"
  by (induction xs rule: progress_stages.induct) simp_all

lemma progress_stages_resolves:
  "progress_stages (map ((\<lambda>x. Resolve x d) \<circ> f) rs) = []"
  by (induction rs) simp_all

lemma progress_stages_signal:
  "progress_stages (snd (case s of Some True \<Rightarrow> fire_abort (Some False) | _ \<Rightarrow> (Some False, []))) = []"
  by (simp add: fire_abort_def split: option.splits bool.splits)

lemma resetSessionState_result:
  "sessionId (fst (resetSessionState c)) = None"
  "conversationId (fst (resetSessionState c)) = None"
  "pendingApprovals (fst (resetSessionState c)) = []"
  "onEvent (fst (resetSessionState c)) = onEvent c"
  "progress_stages (snd (resetSessionState c)) = []"
  by (simp_all add: resetSessionState_def abortPendingApprovals_def Let_def
      stopActiveClaudeProcess_def progress_stages_append progress_stages_resolves
      split: prod.splits option.splits)

lemma progress_stages_emit:
  "onEvent c = Some h \<Longrightarrow> progress_stages (emit_to c (Raw (progress_msg stage m))) = [stage]"
  by (simp add: emit_to_def progress_msg_def isProgressMsg_def)

lemma get_idle_runner:
  assumes "lookup_runner mgr (chatKey sid cid) = Some (i, r)" and "\<not> busy r"
  shows "CodexManager_get trim sid cid binding mgr = Inr (i, r, mgr) \<or>
         (\<exists>fresh. CodexManager_get trim sid cid binding mgr =
             Inr (nextRunner mgr, fresh,
                  mgr\<lparr>objects := (objects mgr)(nextRunner mgr \<mapsto> fresh),
                      runners := (runners mgr)(chatKey sid cid \<mapsto> nextRunner mgr),
                      nextRunner := nextRunner mgr + 1\<rparr>) \<and>
             client fresh = new_client (processBackend mgr) \<and> \<not> busy fresh \<and>
             (instanceId r \<noteq> instanceId fresh \<or> codexHome r \<noteq> codexHome fresh))"
  using assms by (auto simp: CodexManager_get_def Let_def)

text \<open>
  Claim C5, as amended. Let the runner registered for the conversation be idle and hold an
  agent session. When the turn is requested under the instance binding the runner was
  made with, \<open>get\<close> yields that runner, and: if the fingerprint of the requested
  configuration is not the one recorded on the runner, \<open>runTurn\<close> emits the progress stage
  \<open>session_reset\<close>, then \<open>start_session\<close>, the session and conversation ids and the pending
  approvals are gone, and it awaits \<open>startSession\<close>; if the fingerprint is the recorded
  one, it emits \<open>continue_session\<close> and calls \<open>continueSession\<close>, which keeps the session id
  (and throws at once when that id is the empty string). When the turn is requested under
  another instance binding, \<open>get\<close> replaces the runner by a fresh one, which has no session:
  \<open>runTurn\<close> emits \<open>start_session\<close> only and awaits \<open>startSession\<close>, whatever the
  fingerprint.
\<close>

theorem changed_fingerprint_restarts_session:
  assumes l: "lookup_runner mgr (chatKey (o_sessionId opts) (o_chatId opts)) = Some (i, r)"
    and nb: "\<not> busy r"
    and hs: "hasSession (client r)"
  shows "(CodexManager_get trim (o_sessionId opts) (o_chatId opts) (o_instance opts) mgr = Inr (i, r, mgr) \<and>
          configKey r \<noteq> Some (sessionConfigKey stringify (o_config opts)) \<longrightarrow>
           (\<exists>mgr' effs r'.
              runTurn_begin trim stringify now opts mgr
                = (Awaiting (length (turns mgr)) StartSession, mgr', effs) \<and>
              progress_stages effs = [''session_reset'', ''start_session''] \<and>
              lookup_runner mgr' (chatKey (o_sessionId opts) (o_chatId opts)) = Some (i, r') \<and>
              sessionId (client r') = None \<and> conversationId (client r') = None \<and>
              pendingApprovals (client r') = [])) \<and>
         (CodexManager_get trim (o_sessionId opts) (o_chatId opts) (o_instance opts) mgr = Inr (i, r, mgr) \<and>
          configKey r = Some (sessionConfigKey stringify (o_config opts)) \<longrightarrow>
           (\<exists>mgr' effs r'.
              runTurn_begin trim stringify now opts mgr
                = (if sessionId (client r) = Some [] then Threw (length (turns mgr)) MissingSessionId
                   else Awaiting (length (turns mgr)) ContinueSession, mgr', effs) \<and>
              progress_stages effs = [''continue_session''] \<and>
              lookup_runner mgr' (chatKey (o_sessionId opts) (o_chatId opts)) = Some (i, r') \<and>
              sessionId (client r') = sessionId (client r) \<and>
              configKey r' = configKey r)) \<and>
         (CodexManager_get trim (o_sessionId opts) (o_chatId opts) (o_instance opts) mgr \<noteq> Inr (i, r, mgr) \<longrightarrow>
           (\<exists>mgr' effs r'.
              runTurn_begin trim stringify now opts mgr
                = (Awaiting (length (turns mgr)) StartSession, mgr', effs) \<and>
              progress_stages effs = [''start_session''] \<and>
              lookup_runner mgr' (chatKey (o_sessionId opts) (o_chatId opts)) = Some (nextRunner mgr, r') \<and>
              sessionId (client r') = None \<and>
              (instanceId r' \<noteq> instanceId r \<or> codexHome r' \<noteq> codexHome r)))"
proof -
  let ?k = "chatKey (o_sessionId opts) (o_chatId opts)"
  let ?h = "length (turns mgr)"
  let ?key = "sessionConfigKey stringify (o_config opts)"
  let ?get = "CodexManager_get trim (o_sessionId opts) (o_chatId opts) (o_instance opts) mgr"
  obtain a sig where sg: "(case o_signal opts of
                               Some True \<Rightarrow> fire_abort (Some False)
                             | _ \<Rightarrow> (Some False, [])) = (a, sig)"
    by (cases "case o_signal opts of Some True \<Rightarrow> fire_abort (Some False) | _ \<Rightarrow> (Some False, [])")
  have sig: "progress_stages sig = []"
    using progress_stages_signal [of "o_signal opts"] sg by simp
  from l have li: "runners mgr ?k = Some i" "objects mgr i = Some r"
    by (auto simp: lookup_runner_def split: option.splits)
  define c1 where "c1 = setEventHandler (Some ?h) (client r)"
  have c1: "hasSession c1" "onEvent c1 = Some ?h" "sessionId c1 = sessionId (client r)"
    using hs by (simp_all add: c1_def setEventHandler_def hasSession_def)
  have changed: "\<exists>mgr' effs r'.
              runTurn_begin trim stringify now opts mgr = (Awaiting ?h StartSession, mgr', effs) \<and>
              progress_stages effs = [''session_reset'', ''start_session''] \<and>
              lookup_runner mgr' ?k = Some (i, r') \<and>
              sessionId (client r') = None \<and> conversationId (client r') = None \<and>
              pendingApprovals (client r') = []"
    if g: "?get = Inr (i, r, mgr)" and ne: "configKey r \<noteq> Some ?key"
  proof -
    obtain c effs where rs: "resetSessionState c1 = (c, effs)"
      by (cases "resetSessionState c1")
    from resetSessionState_result [of c1] rs c1
    have c: "sessionId c = None" "conversationId c = None" "pendingApprovals c = []"
      "onEvent c = Some ?h" "progress_stages effs = []"
      by simp_all
    define tc where "tc = \<lparr>tc_runner = i, tc_nextConfigKey = ?key,
                       tc_call = Some StartSession, tc_turnStartAt = now, tc_lastNonProgressAt = now,
                       tc_lastHeartbeatAt = 0, tc_heartbeatTimer = True\<rparr>"
    define r' where "r' = r\<lparr>client := startSession_begin c, busy := True, abort := a\<rparr>"
    define mgr' where "mgr' = (set_runner i r' mgr)\<lparr>turns := turns mgr @ [tc]\<rparr>"
    define out where "out = sig @ (emit_to c1 (Raw (progress_msg ''session_reset''
                                   ''session config changed; resetting Codex session'')) @ effs) @
                      emit_to c (Raw (progress_msg ''start_session''
                        (''starting new Codex session (model='' @
                         or_default (model (o_config opts)) ''default'' @ '', cwd='' @
                         or_default (cwd (o_config opts)) ''(default)'' @ '')'')))"
    have run: "runTurn_begin trim stringify now opts mgr = (Awaiting ?h StartSession, mgr', out)"
      using g nb ne c1(1) c(1) sg rs
      by (simp add: runTurn_begin_def Let_def c1_def [symmetric] hasSession_def
          mgr'_def r'_def tc_def out_def)
    have st: "progress_stages out = [''session_reset'', ''start_session'']"
      using sig c(4,5) c1(2)
      by (simp add: out_def progress_stages_append progress_stages_emit)
    have r'f: "sessionId (client r') = None" "conversationId (client r') = None"
      "pendingApprovals (client r') = []"
      using c by (simp_all add: r'_def startSession_begin_def)
    have lk: "lookup_runner mgr' ?k = Some (i, r')"
      using li by (simp add: lookup_runner_def mgr'_def set_runner_def)
    from run st r'f lk show ?thesis by blast
  qed
  have same: "\<exists>mgr' effs r'.
              runTurn_begin trim stringify now opts mgr
                = (if sessionId (client r) = Some [] then Threw ?h MissingSessionId
                   else Awaiting ?h ContinueSession, mgr', effs) \<and>
              progress_stages effs = [''continue_session''] \<and>
              lookup_runner mgr' ?k = Some (i, r') \<and>
              sessionId (client r') = sessionId (client r) \<and> configKey r' = configKey r"
    if g: "?get = Inr (i, r, mgr)" and eq: "configKey r = Some ?key"
  proof -
    define tc where "tc = \<lparr>tc_runner = i, tc_nextConfigKey = ?key,
                       tc_call = None, tc_turnStartAt = now, tc_lastNonProgressAt = now,
                       tc_lastHeartbeatAt = 0, tc_heartbeatTimer = True\<rparr>"
    define out where "out = sig @ [] @
                           emit_to c1 (Raw (progress_msg ''continue_session''
                             (''continuing Codex session (model='' @
                              or_default (model (o_config opts)) ''default'' @ '')'')))"
    have st: "progress_stages out = [''continue_session'']"
      using sig c1(2) by (simp add: out_def progress_stages_append progress_stages_emit)
    show ?thesis
    proof (cases "sessionId (client r) = Some []")
      case True
      then have cs: "continueSession_begin c1 = Inl MissingSessionId"
        using c1(3) by (simp add: continueSession_begin_def)
      define m0 where "m0 = (set_runner i (r\<lparr>client := c1, busy := True, abort := a\<rparr>) mgr)
                                \<lparr>turns := turns mgr @ [tc]\<rparr>"
      define r' where "r' = r\<lparr>client := setEventHandler None c1, busy := False, abort := None\<rparr>"
      have run: "runTurn_begin trim stringify now opts mgr
                   = (Threw ?h MissingSessionId, runTurn_finally ?h m0, out)"
        using g nb eq c1(1) sg cs
        by (simp add: runTurn_begin_def Let_def c1_def [symmetric] m0_def tc_def out_def)
      have fin: "runTurn_finally ?h m0 = set_runner i r' m0"
        by (simp add: runTurn_finally_def m0_def set_runner_def tc_def r'_def)
      have lk: "lookup_runner (runTurn_finally ?h m0) ?k = Some (i, r')"
        unfolding fin using li by (simp add: lookup_runner_def m0_def set_runner_def)
      have "sessionId (client r') = sessionId (client r)" "configKey r' = configKey r"
        using c1(3) by (simp_all add: r'_def setEventHandler_def)
      with run st lk True show ?thesis by auto
    next
      case False
      with c1 obtain c3 where cs: "continueSession_begin c1 = Inr c3"
        and c3: "sessionId c3 = sessionId c1"
        by (auto simp: continueSession_begin_def hasSession_def split: option.splits)
      define r' where "r' = r\<lparr>client := c3, busy := True, abort := a\<rparr>"
      define mgr' where "mgr' = (set_runner i r' mgr)
                                  \<lparr>turns := turns mgr @ [tc\<lparr>tc_call := Some ContinueSession\<rparr>]\<rparr>"
      have run: "runTurn_begin trim stringify now opts mgr = (Awaiting ?h ContinueSession, mgr', out)"
        using g nb eq c1(1) sg cs
        by (simp add: runTurn_begin_def Let_def c1_def [symmetric]
            mgr'_def r'_def tc_def out_def)
      have lk: "lookup_runner mgr' ?k = Some (i, r')"
        using li by (simp add: lookup_runner_def mgr'_def set_runner_def)
      have "sessionId (client r') = sessionId (client r)" "configKey r' = configKey r"
        using c3 c1(3) by (simp_all add: r'_def)
      with run st lk False show ?thesis by auto
    qed
  qed
  have other: "\<exists>mgr' effs r'.
              runTurn_begin trim stringify now opts mgr = (Awaiting ?h StartSession, mgr', effs) \<and>
              progress_stages effs = [''start_session''] \<and>
              lookup_runner mgr' ?k = Some (nextRunner mgr, r') \<and>
              sessionId (client r') = None \<and>
              (instanceId r' \<noteq> instanceId r \<or> codexHome r' \<noteq> codexHome r)"
    if ng: "?get \<noteq> Inr (i, r, mgr)"
  proof -
    from get_idle_runner [OF l nb, of trim "o_instance opts"] ng
    obtain fresh where g: "?get =
             Inr (nextRunner mgr, fresh,
                  mgr\<lparr>objects := (objects mgr)(nextRunner mgr \<mapsto> fresh),
                      runners := (runners mgr)(?k \<mapsto> nextRunner mgr),
                      nextRunner := nextRunner mgr + 1\<rparr>)"
      and fr: "client fresh = new_client (processBackend mgr)" "\<not> busy fresh"
        "instanceId r \<noteq> instanceId fresh \<or> codexHome r \<noteq> codexHome fresh"
      by blast
    define m1 where "m1 = mgr\<lparr>objects := (objects mgr)(nextRunner mgr \<mapsto> fresh),
                      runners := (runners mgr)(?k \<mapsto> nextRunner mgr),
                      nextRunner := nextRunner mgr + 1\<rparr>"
    define c2 where "c2 = setEventHandler (Some ?h) (client fresh)"
    have c2: "\<not> hasSession c2" "onEvent c2 = Some ?h" "sessionId c2 = None"
      by (simp_all add: c2_def fr(1) setEventHandler_def hasSession_def new_client_def)
    define tc where "tc = \<lparr>tc_runner = nextRunner mgr, tc_nextConfigKey = ?key,
                       tc_call = Some StartSession, tc_turnStartAt = now, tc_lastNonProgressAt = now,
                       tc_lastHeartbeatAt = 0, tc_heartbeatTimer = True\<rparr>"
    define r' where "r' = fresh\<lparr>client := startSession_begin c2, busy := True, abort := a\<rparr>"
    define mgr' where "mgr' = (set_runner (nextRunner mgr) r' m1)\<lparr>turns := turns m1 @ [tc]\<rparr>"
    define out where "out = sig @ [] @
                      emit_to c2 (Raw (progress_msg ''start_session''
                        (''starting new Codex session (model='' @
                         or_default (model (o_config opts)) ''default'' @ '', cwd='' @
                         or_default (cwd (o_config opts)) ''(default)'' @ '')'')))"
    have t1: "turns m1 = turns mgr" by (simp add: m1_def)
    have run: "runTurn_begin trim stringify now opts mgr = (Awaiting ?h StartSession, mgr', out)"
      using fr(2) c2(1) sg
      by (simp add: runTurn_begin_def g Let_def c2_def [symmetric]
          mgr'_def m1_def r'_def tc_def out_def)
    have st: "progress_stages out = [''start_session'']"
      using sig c2(2) by (simp add: out_def progress_stages_append progress_stages_emit)
    have lk: "lookup_runner mgr' ?k = Some (nextRunner mgr, r')"
      by (simp add: lookup_runner_def mgr'_def set_runner_def m1_def)
    have "sessionId (client r') = None"
      "instanceId r' \<noteq> instanceId r \<or> codexHome r' \<noteq> codexHome r"
      using c2(3) fr(3) by (auto simp: r'_def startSession_begin_def)
    with run st lk show ?thesis by blast
  qed
  from changed same other show ?thesis by blast
qed


theorem changed_fingerprint_restarts_session_witness:
  "lookup_runner (example_manager False) (chatKey ''s'' ''c'') = Some (0, example_runner False) \<and>
   \<not> busy (example_runner False) \<and> hasSession (client (example_runner False)) \<and>
   configKey (example_runner False) = Some ''gpt-a'' \<and>
   sessionConfigKey example_stringify (example_config ''gpt-a'') = ''gpt-a'' \<and>
   sessionConfigKey example_stringify (example_config ''gpt-b'') = ''gpt-b'' \<and>
   (\<exists>mgr' effs r'.
      runTurn_begin (\<lambda>s. s) example_stringify 7 (example_opts ''gpt-b'') (example_manager False)
        = (Awaiting 0 StartSession, mgr', effs) \<and>
      progress_stages effs = [''session_reset'', ''start_session''] \<and>
      lookup_runner mgr' (chatKey ''s'' ''c'') = Some (0, r') \<and>
      sessionId (client r') = None \<and> conversationId (client r') = None) \<and>
   (\<exists>mgr' effs r'.
      runTurn_begin (\<lambda>s. s) example_stringify 7 (example_opts ''gpt-a'') (example_manager False)
        = (Awaiting 0 ContinueSession, mgr', effs) \<and>
      progress_stages effs = [''continue_session''] \<and>
      lookup_runner mgr' (chatKey ''s'' ''c'') = Some (0, r') \<and>
      sessionId (client r') = Some ''sess-1'') \<and>
   (\<exists>mgr' effs r'.
      runTurn_begin (\<lambda>s. s) example_stringify 7
          ((example_opts ''gpt-a'')\<lparr>o_instance := Some \<lparr>b_instanceId = ''other'', b_codexHome = None\<rparr>\<rparr>)
          (example_manager False)
        = (Awaiting 0 StartSession, mgr', effs) \<and>
      progress_stages effs = [''start_session''] \<and>
      lookup_runner mgr' (chatKey ''s'' ''c'') = Some (1, r') \<and>
      sessionId (client r') = None)"
proof -
  let ?other = "(example_opts ''gpt-a'')\<lparr>o_instance := Some \<lparr>b_instanceId = ''other'', b_codexHome = None\<rparr>\<rparr>"
  have l: "lookup_runner (example_manager False) (chatKey ''s'' ''c'') = Some (0, example_runner False)"
    by (simp add: lookup_runner_def example_manager_def)
  have r: "\<not> busy (example_runner False)" "hasSession (client (example_runner False))"
    "configKey (example_runner False) = Some ''gpt-a''"
    "sessionId (client (example_runner False)) = Some ''sess-1''"
    by (simp_all add: example_runner_def hasSession_def)
  have k: "sessionConfigKey example_stringify (example_config m) = m" for m
    by (simp add: sessionConfigKey_def example_stringify_def example_config_def or_null_def)
  have o: "o_sessionId (example_opts m) = ''s''" "o_chatId (example_opts m) = ''c''"
    "o_config (example_opts m) = example_config m" "o_instance (example_opts m) = None"
    "o_sessionId ?other = ''s''" "o_chatId ?other = ''c''"
    "o_config ?other = example_config ''gpt-a''"
    "o_instance ?other = Some \<lparr>b_instanceId = ''other'', b_codexHome = None\<rparr>" for m
    by (simp_all add: example_opts_def)
  have g: "CodexManager_get (\<lambda>s. s) ''s'' ''c'' None (example_manager False)
             = Inr (0, example_runner False, example_manager False)"
    by (simp add: CodexManager_get_def l Let_def) (simp add: example_runner_def)
  have g': "CodexManager_get (\<lambda>s. s) ''s'' ''c'' (Some \<lparr>b_instanceId = ''other'', b_codexHome = None\<rparr>)
               (example_manager False)
             \<noteq> Inr (0, example_runner False, example_manager False)"
    by (simp add: CodexManager_get_def l Let_def) (simp add: example_runner_def example_manager_def)
  have t: "length (turns (example_manager False)) = 0" "nextRunner (example_manager False) = 1"
    by (simp_all add: example_manager_def)
  have changed: "\<exists>mgr' effs r'.
      runTurn_begin (\<lambda>s. s) example_stringify 7 (example_opts ''gpt-b'') (example_manager False)
        = (Awaiting 0 StartSession, mgr', effs) \<and>
      progress_stages effs = [''session_reset'', ''start_session''] \<and>
      lookup_runner mgr' (chatKey ''s'' ''c'') = Some (0, r') \<and>
      sessionId (client r') = None \<and> conversationId (client r') = None"
    using changed_fingerprint_restarts_session
      [of "example_manager False" "example_opts ''gpt-b''" 0 "example_runner False"
          "\<lambda>s. s" example_stringify 7]
      l r g
    by (simp add: o k t) blast
  have same: "\<exists>mgr' effs r'.
      runTurn_begin (\<lambda>s. s) example_stringify 7 (example_opts ''gpt-a'') (example_manager False)
        = (Awaiting 0 ContinueSession, mgr', effs) \<and>
      progress_stages effs = [''continue_session''] \<and>
      lookup_runner mgr' (chatKey ''s'' ''c'') = Some (0, r') \<and>
      sessionId (client r') = Some ''sess-1''"
    using changed_fingerprint_restarts_session
      [of "example_manager False" "example_opts ''gpt-a''" 0 "example_runner False"
          "\<lambda>s. s" example_stringify 7]
      l r g
    by (simp add: o k t) blast
  have other: "\<exists>mgr' effs r'.
      runTurn_begin (\<lambda>s. s) example_stringify 7 ?other (example_manager False)
        = (Awaiting 0 StartSession, mgr', effs) \<and>
      progress_stages effs = [''start_session''] \<and>
      lookup_runner mgr' (chatKey ''s'' ''c'') = Some (1, r') \<and>
      sessionId (client r') = None"
    using changed_fingerprint_restarts_session
      [of "example_manager False" ?other 0 "example_runner False"
          "\<lambda>s. s" example_stringify 7]
      l r g'
    by (simp add: o k t) blast
  from l r(1,2,3) k changed same other show ?thesis by blast
qed

text \<open>
  Claim C5 as stated fails for a turn requested under another instance binding: with a
  live session and an equal fingerprint \<open>startSession\<close> is called, not \<open>continueSession\<close>,
  and with a changed fingerprint no \<open>session_reset\<close> is emitted.
\<close>

theorem equal_fingerprint_other_instance_counterexample:
  "hasSession (client (example_runner False)) \<and>
   lookup_runner (example_manager False) (chatKey ''s'' ''c'') = Some (0, example_runner False) \<and>
   configKey (example_runner False)
     = Some (sessionConfigKey example_stringify (example_config ''gpt-a'')) \<and>
   fst (runTurn_begin (\<lambda>s. s) example_stringify 7
          ((example_opts ''gpt-a'')\<lparr>o_instance := Some \<lparr>b_instanceId = ''other'', b_codexHome = None\<rparr>\<rparr>)
          (example_manager False))
     = Awaiting 0 StartSession \<and>
   configKey (example_runner False)
     \<noteq> Some (sessionConfigKey example_stringify (example_config ''gpt-b'')) \<and>
   progress_stages (snd (snd (runTurn_begin (\<lambda>s. s) example_stringify 7
          ((example_opts ''gpt-b'')\<lparr>o_instance := Some \<lparr>b_instanceId = ''other'', b_codexHome = None\<rparr>\<rparr>)
          (example_manager False))))
     = [''start_session'']"
proof -
  have l: "lookup_runner (example_manager False) (chatKey ''s'' ''c'') = Some (0, example_runner False)"
    by (simp add: lookup_runner_def example_manager_def)
  have k: "sessionConfigKey example_stringify (example_config m) = m" for m
    by (simp add: sessionConfigKey_def example_stringify_def example_config_def or_null_def)
  have r: "hasSession (client (example_runner False))" "configKey (example_runner False) = Some ''gpt-a''"
    "instanceId (example_runner False) = ''default''" "\<not> busy (example_runner False)"
    by (simp_all add: example_runner_def hasSession_def)
  have g: "CodexManager_get (\<lambda>s. s) ''s'' ''c'' (Some \<lparr>b_instanceId = ''other'', b_codexHome = None\<rparr>)
               (example_manager False)
             = Inr (1, \<lparr>client = new_client Codex, busy = False, abort = None, configKey = None,
                        instanceId = ''other'', codexHome = None\<rparr>,
                    (example_manager False)
                      \<lparr>objects := (objects (example_manager False))
                           (1 \<mapsto> \<lparr>client = new_client Codex, busy = False, abort = None,
                                   configKey = None, instanceId = ''other'', codexHome = None\<rparr>),
                       runners := (runners (example_manager False))(chatKey ''s'' ''c'' \<mapsto> 1),
                       nextRunner := 2\<rparr>)"
    by (simp add: CodexManager_get_def l r Let_def) (simp add: example_manager_def)
  have run: "fst (runTurn_begin (\<lambda>s. s) example_stringify 7
          ((example_opts m)\<lparr>o_instance := Some \<lparr>b_instanceId = ''other'', b_codexHome = None\<rparr>\<rparr>)
          (example_manager False)) = Awaiting 0 StartSession \<and>
        progress_stages (snd (snd (runTurn_begin (\<lambda>s. s) example_stringify 7
          ((example_opts m)\<lparr>o_instance := Some \<lparr>b_instanceId = ''other'', b_codexHome = None\<rparr>\<rparr>)
          (example_manager False)))) = [''start_session'']" for m
    by (simp add: runTurn_begin_def example_opts_def g Let_def)
       (simp add: setEventHandler_def hasSession_def new_client_def emit_to_def progress_msg_def
          isProgressMsg_def example_manager_def)
  from l k r run show ?thesis by simp
qed

subsection \<open>Heartbeat\<close>

text \<open>Settling a turn leaves every turn's closure, and so its interval timer, as it was.\<close>

lemma runTurn_finally_turns: "turns (runTurn_finally h mgr) = turns mgr"
  by (simp add: runTurn_finally_def set_runner_def split: option.splits)

lemma runTurn_settle_turns: "turns (snd (runTurn_settle toStr h res mgr)) = turns mgr"
  by (simp add: runTurn_settle_def runTurn_finally_turns set_runner_def Let_def
      split: option.splits call_result.splits prod.splits)

lemma extractRateLimits_empty: "extractRateLimits (JObj []) = None"
  by (simp add: extractRateLimits_def eval_nat_numeral)

lemma extractRateLimits_delta:
  "extractRateLimits (JObj [(''type'', JStr ''agent_message_delta''), (''delta'', JStr t)]) = None"
  by (simp add: extractRateLimits_def eval_nat_numeral)

text \<open>
  The timer of a turn is not cleared when the turn ends, so it goes on emitting heartbeats
  to the turn's event sink, by its own clock of the last event that is not a progress
  message. Conversation \<open>s:c\<close> in the manager: a first turn starts at 0 and its backend
  call resolves; a second turn starts at 5000 and an \<open>agent_message_delta\<close> arrives at 9500.
  At 10000 the first turn's timer emits a heartbeat, half a second after the delta, and at
  20000 both timers emit one.
\<close>

lemma stale_timer_heartbeats_in_later_turn:
  "(let (o1, m1, e1) = runTurn_begin (\<lambda>s. s) example_stringify 0 (example_opts ''gpt-a'')
                         (example_manager False);
        (res, m2) = runTurn_settle (\<lambda>v. []) 0 (Resolved (JObj [])) m1;
        (o3, m3, e3) = runTurn_begin (\<lambda>s. s) example_stringify 5000 (example_opts ''gpt-a'') m2;
        (m4, e4) = CodexManager_notify (\<lambda>v. []) 9500 0
                     (JObj [(''type'', JStr ''agent_message_delta''), (''delta'', JStr ''x'')]) m3;
        (m5, e5) = timer_tick (\<lambda>v. []) 10000 m4;
        (m6, e6) = timer_tick (\<lambda>v. []) 20000 m5
    in o1 = Awaiting 0 ContinueSession \<and> \<not> isBusy ''s'' ''c'' m2 \<and>
       o3 = Awaiting 1 ContinueSession \<and> isBusy ''s'' ''c'' m3 \<and>
       e4 = [Emit 1 (AgentMessage ''x'')] \<and>
       map tc_lastNonProgressAt (turns m4) = [0, 9500] \<and>
       map tc_heartbeatTimer (turns m4) = [True, True] \<and>
       progress_stages e5 = [''heartbeat''] \<and>
       e5 = [Emit 0 (Raw (heartbeat_msg (\<lambda>v. []) 10000 (turns m4 ! 0) False))] \<and>
       e6 = [Emit 0 (Raw (heartbeat_msg (\<lambda>v. []) 20000 (turns m5 ! 0) False)),
             Emit 1 (Raw (heartbeat_msg (\<lambda>v. []) 20000 (turns m5 ! 1) False))])"
  by (simp add: runTurn_begin_def runTurn_settle_def runTurn_finally_def CodexManager_get_def
      lookup_runner_def set_runner_def example_manager_def example_runner_def example_opts_def
      example_config_def example_stringify_def sessionConfigKey_def or_null_def chatKey_def
      setEventHandler_def hasSession_def new_client_def continueSession_begin_def
      emit_to_def progress_msg_def isProgressMsg_def or_default_def session_call_end_def
      extractIdentifiers_def extractUsage_def extractRateLimits_empty extractRateLimits_delta
      updateIdentifiersFromEvent_def update_ids_from_def nullish_def
      CodexManager_notify_def codexEvent_def note_emits_def note_emit_def
      timer_tick_def heartbeat_tick_def heartbeatEveryMs_def heartbeat_msg_def
      hasPendingApprovals_def isBusy_def Let_def)

text \<open>
  Claim C9: heartbeats are emitted while a turn is running, only after ten seconds without
  an event that is not a progress message and ten seconds after the last heartbeat, and
  a turn's events end with its one terminal event. The code breaks this once a turn has
  ended, since the turn's timer lives on. In the gateway: a turn of conversation \<open>s:c\<close>
  starts at 0 and its backend call resolves at 1000, so \<open>done\<close> is appended and the
  conversation is not busy. When the timers fire at 11000 the ended turn's timer appends a
  heartbeat to the stream, after the terminal event.
\<close>

theorem ended_turn_timer_still_fires:
  "stream_kinds ''s'' ''c''
     (sessiond_tick (\<lambda>v. []) 11000
        (sessiond_settle (\<lambda>v. []) 1000 0 (Resolved (JObj [])) []
           (fst (snd (sessiond_start (\<lambda>s. s) example_stringify 0 example_body (new_sessiond Codex))))))
     = [''start'', ''progress'', ''done'', ''progress''] \<and>
   heartbeat_times ''s'' ''c''
     (sessiond_tick (\<lambda>v. []) 11000
        (sessiond_settle (\<lambda>v. []) 1000 0 (Resolved (JObj [])) []
           (fst (snd (sessiond_start (\<lambda>s. s) example_stringify 0 example_body (new_sessiond Codex))))))
     = [11000] \<and>
   \<not> isBusy ''s'' ''c'' (codex
        (sessiond_settle (\<lambda>v. []) 1000 0 (Resolved (JObj [])) []
           (fst (snd (sessiond_start (\<lambda>s. s) example_stringify 0 example_body (new_sessiond Codex))))))"
  by (simp add: sessiond_start_def sessiond_settle_def sessiond_tick_def new_sessiond_def example_body_def
      example_config_def example_stringify_def StartSchema_ok_def isBusy_def lookup_runner_def
      chatKey_def CodexManager_get_def set_runner_def runTurn_begin_def runTurn_settle_def
      runTurn_finally_def session_call_end_def extractIdentifiers_def extractUsage_def
      extractRateLimits_empty
      sessionConfigKey_def or_null_def or_default_def new_client_def setEventHandler_def
      hasSession_def startSession_begin_def emit_to_def progress_msg_def isProgressMsg_def
      apply_effects_def apply_effect_def sessiond_onEvent_def sessiond_resetStream_def
      sessiond_ensureStream_def sessiond_appendStreamEvent_def push_event_def clear_stream_def
      splice_oldest_def latch_status_def truthy_or_null_def stream_kinds_def heartbeat_times_def
      is_heartbeat_def timer_tick_def heartbeat_tick_def heartbeatEveryMs_def heartbeat_msg_def
      hasPendingApprovals_def nullish_def Let_def)

section \<open>Properties of the rate-limit normalisation\<close>


section \<open>Properties of the reconciliation bridge\<close>








lemma ensureStream_idem:
  "MemoryStore_ensureStream now sid cid (snd (MemoryStore_ensureStream now' sid cid st))
     = MemoryStore_ensureStream now' sid cid st"
  by (simp add: MemoryStore_ensureStream_def Let_def split: option.splits)


lemma nextId_ensure_now:
  "nextId (fst (MemoryStore_ensureStream now sid cid st))
     = nextId (fst (MemoryStore_ensureStream now' sid cid st))"
  by (simp add: MemoryStore_ensureStream_def Let_def split: option.splits)









end
